theory Spec2Isabelle
  imports Complex_Main
begin

section \<open>JSON documents and HTTP requests\<close>

text \<open>
  Both clients exchange JSON with the backend. The platform parsers (Foundation's
  JSONDecoder, React Native's \<open>response.json()\<close>) are outside the repository, so a
  response body is modelled by its parse result: \<open>None\<close> when the body is not
  well-formed JSON, otherwise the document. An object holds the entries of the parsed
  dictionary and is read with \<open>map_of\<close>; a number holds the finite value the parser
  produced.
\<close>

datatype json =
    JNull
  | JBool bool
  | JNum rat
  | JStr string
  | JArr "json list"
  | JObj "(string \<times> json) list"

text \<open>
  A request body: none, the JSON document of an encoded value, or raw bytes (the
  multipart payload of the image upload).
\<close>

datatype body = NoBody | JSONBody json | DataBody string

record request =
  url :: string
  httpMethod :: string
  headers :: "(string \<times> string) list"
  httpBody :: body

text \<open>\<open>setValue v k hs\<close>: set header \<open>k\<close> to \<open>v\<close>, replacing an earlier value.\<close>

fun setValue :: "string \<Rightarrow> string \<Rightarrow> (string \<times> string) list \<Rightarrow> (string \<times> string) list" where
  "setValue v k [] = [(k, v)]"
| "setValue v k ((k', v') # hs) =
     (if k' = k then (k, v) # hs else (k', v') # setValue v k hs)"

definition baseURL :: string where
  "baseURL = ''https://nutai-production.up.railway.app''"

subsection \<open>Decimal rendering of integers\<close>

text \<open>Swift's string interpolation \<open>"\(code)"\<close> of an \<open>Int\<close>.\<close>

definition digit :: "nat \<Rightarrow> char" where
  "digit n = ''0123456789'' ! n"

function showNat :: "nat \<Rightarrow> string" where
  "showNat n = (if n < 10 then [digit n] else showNat (n div 10) @ [digit (n mod 10)])"
  by pat_completeness auto
termination
  by (relation "measure id") auto

declare showNat.simps [simp del]

definition showInt :: "int \<Rightarrow> string" where
  "showInt i = (if i < 0 then CHR ''-'' # showNat (nat (- i)) else showNat (nat i))"

section \<open>The SwiftUI client: NetworkManager.swift\<close>

subsection \<open>Models.swift: the decoded shapes\<close>

record User =
  id' :: int
  username :: string
  email :: string
  isActive :: bool
  createdAt :: string

record Token =
  accessToken :: string
  tokenType :: string

record APIError =
  detail :: string

text \<open>
  Decoding an \<open>Int\<close> accepts a number that is integral and fits in 64 bits; decoding a
  \<open>String\<close> or a \<open>Bool\<close> accepts only that kind of value. A missing key fails the
  decoding of a non-optional field; keys the struct does not name are ignored.
\<close>

definition decodeInt :: "json \<Rightarrow> int option" where
  "decodeInt j = (case j of
       JNum r \<Rightarrow> (if r = of_int \<lfloor>r\<rfloor> \<and> - (2 ^ 63) \<le> \<lfloor>r\<rfloor> \<and> \<lfloor>r\<rfloor> < 2 ^ 63
                  then Some \<lfloor>r\<rfloor> else None)
     | _ \<Rightarrow> None)"

definition decodeString :: "json \<Rightarrow> string option" where
  "decodeString j = (case j of JStr s \<Rightarrow> Some s | _ \<Rightarrow> None)"

definition decodeBool :: "json \<Rightarrow> bool option" where
  "decodeBool j = (case j of JBool b \<Rightarrow> Some b | _ \<Rightarrow> None)"

text \<open>\<open>field dec kvs k\<close>: decode the value stored under key \<open>k\<close>.\<close>

definition field :: "(json \<Rightarrow> 'a option) \<Rightarrow> (string \<times> json) list \<Rightarrow> string \<Rightarrow> 'a option" where
  "field dec kvs k = (case map_of kvs k of None \<Rightarrow> None | Some v \<Rightarrow> dec v)"

definition decodeUser :: "json \<Rightarrow> User option" where
  "decodeUser j = (case j of
       JObj kvs \<Rightarrow>
         Option.bind (field decodeInt kvs ''id'') (\<lambda>i.
         Option.bind (field decodeString kvs ''username'') (\<lambda>u.
         Option.bind (field decodeString kvs ''email'') (\<lambda>e.
         Option.bind (field decodeBool kvs ''is_active'') (\<lambda>a.
         Option.bind (field decodeString kvs ''created_at'') (\<lambda>c.
           Some \<lparr>id' = i, username = u, email = e, isActive = a, createdAt = c\<rparr>)))))
     | _ \<Rightarrow> None)"

definition decodeToken :: "json \<Rightarrow> Token option" where
  "decodeToken j = (case j of
       JObj kvs \<Rightarrow>
         Option.bind (field decodeString kvs ''access_token'') (\<lambda>a.
         Option.bind (field decodeString kvs ''token_type'') (\<lambda>t.
           Some \<lparr>accessToken = a, tokenType = t\<rparr>))
     | _ \<Rightarrow> None)"

definition decodeAPIError :: "json \<Rightarrow> APIError option" where
  "decodeAPIError j = (case j of
       JObj kvs \<Rightarrow>
         Option.bind (field decodeString kvs ''detail'') (\<lambda>d. Some \<lparr>detail = d\<rparr>)
     | _ \<Rightarrow> None)"

subsection \<open>Errors\<close>

datatype NetworkError =
    invalidURL
  | notAuthenticated
  | invalidResponse
  | serverError int
  | apiError string

fun errorDescription :: "NetworkError \<Rightarrow> string" where
  "errorDescription invalidURL = ''Invalid URL''"
| "errorDescription notAuthenticated = ''Not authenticated''"
| "errorDescription invalidResponse = ''Invalid response''"
| "errorDescription (serverError code) = ''Server error: '' @ showInt code"
| "errorDescription (apiError message) = message"

text \<open>
  Besides its own \<open>NetworkError\<close>, a request can throw what Foundation throws: the
  transport error of \<open>URLSession\<close> (carrying the platform's description) and the
  decoding error of \<open>JSONDecoder\<close>. \<open>Trap\<close> stands for the run-time trap of
  force-unwrapping \<open>nil\<close>, which ends the process and is never caught.
\<close>

datatype error =
    NetErr NetworkError
  | URLError string
  | DecodingError
  | Trap

subsection \<open>The platform\<close>

text \<open>
  What \<open>URLSession.shared.data(for:)\<close> delivers: a thrown transport error, a response
  that is not an \<open>HTTPURLResponse\<close>, or an HTTP response with its status code and body.
\<close>

datatype session_result =
    Failed string
  | NonHTTP
  | HTTP int "json option"

text \<open>
  Foundation as the code uses it. \<open>URL_string u\<close> tells whether \<open>URL(string: u)\<close> is
  non-nil. \<open>URLSession_data n r\<close> is the outcome of issuing request \<open>r\<close> when \<open>n\<close>
  requests have been issued before. \<open>toDouble\<close> is the conversion \<open>Double(_:)\<close> of an
  \<open>Int\<close>.
\<close>

record Foundation =
  URL_string :: "string \<Rightarrow> bool"
  URLSession_data :: "nat \<Rightarrow> request \<Rightarrow> session_result"
  decodingErrorDescription :: string
  toDouble :: "int \<Rightarrow> rat"

text \<open>
  \<open>localizedDescription\<close>: the \<open>errorDescription\<close> of a \<open>NetworkError\<close>, the
  platform's text otherwise. A trap is never caught, so nothing reads its description.
\<close>

fun localizedDescription :: "Foundation \<Rightarrow> error \<Rightarrow> string" where
  "localizedDescription w (NetErr e) = errorDescription e"
| "localizedDescription w (URLError d) = d"
| "localizedDescription w DecodingError = decodingErrorDescription w"
| "localizedDescription w Trap = []"

subsection \<open>The manager's state\<close>

text \<open>
  The published properties of \<open>NetworkManager\<close>, and \<open>authToken\<close>, the string kept in
  \<open>UserDefaults\<close> under the key \<open>auth_token\<close>. The list of requests issued so far is
  threaded beside the state, so that "no network request" is a statement about it.
\<close>

record NetworkManager =
  isAuthenticated :: bool
  currentUser :: "User option"
  isLoading :: bool
  errorMessage :: "string option"
  authToken :: "string option"

subsection \<open>The generic request handler\<close>

text \<open>
  \<open>performRequest\<close> (lines 270-312; the overload for a dictionary body, lines 314-356,
  differs only in how the body is serialised). \<open>decode\<close> is the decoder of the
  expected shape \<open>U\<close>; \<open>body\<close> is the encoded body, \<open>NoBody\<close> when the argument is nil.
  \<open>buildRequest\<close> is the request put together at lines 281-294, with the bearer token
  to attach, if any.
\<close>

definition buildRequest :: "string \<Rightarrow> string \<Rightarrow> body \<Rightarrow> string option \<Rightarrow> request" where
  "buildRequest endpoint method body bearer =
     \<lparr>url = baseURL @ endpoint, httpMethod = method,
      headers = (case bearer of
                   None \<Rightarrow> [(''Content-Type'', ''application/json'')]
                 | Some token \<Rightarrow>
                     setValue (''Bearer '' @ token) ''Authorization''
                       [(''Content-Type'', ''application/json'')]),
      httpBody = body\<rparr>"

definition performRequest ::
  "Foundation \<Rightarrow> (json \<Rightarrow> 'u option) \<Rightarrow> string \<Rightarrow> string \<Rightarrow> body \<Rightarrow> bool \<Rightarrow>
     NetworkManager \<Rightarrow> request list \<Rightarrow> (error + 'u) \<times> request list" where
  "performRequest w decode endpoint method body requiresAuth s issued =
     (if \<not> URL_string w (baseURL @ endpoint) then (Inl (NetErr invalidURL), issued)
      else if requiresAuth \<and> authToken s = None then (Inl (NetErr notAuthenticated), issued)
      else
        let req = buildRequest endpoint method body
                    (if requiresAuth then authToken s else None)
        in (case URLSession_data w (length issued) req of
              Failed d \<Rightarrow> Inl (URLError d)
            | NonHTTP \<Rightarrow> Inl (NetErr invalidResponse)
            | HTTP statusCode data \<Rightarrow>
                if statusCode = 200 \<or> statusCode = 201 then
                  (case Option.bind data decode of
                     Some v \<Rightarrow> Inr v
                   | None \<Rightarrow> Inl DecodingError)
                else
                  (case Option.bind data decodeAPIError of
                     Some errorResponse \<Rightarrow> Inl (NetErr (apiError (detail errorResponse)))
                   | None \<Rightarrow> Inl (NetErr (serverError statusCode))),
            issued @ [req]))"

subsection \<open>Authentication\<close>

definition encodeUserLogin :: "string \<Rightarrow> string \<Rightarrow> json" where
  "encodeUserLogin u p = JObj [(''username'', JStr u), (''password'', JStr p)]"

definition encodeUserCreate :: "string \<Rightarrow> string \<Rightarrow> string \<Rightarrow> json" where
  "encodeUserCreate u e p = JObj [(''username'', JStr u), (''email'', JStr e), (''password'', JStr p)]"

definition logout :: "NetworkManager \<Rightarrow> NetworkManager" where
  "logout s = s\<lparr>authToken := None, isAuthenticated := False, currentUser := None\<rparr>"

definition getCurrentUser ::
  "Foundation \<Rightarrow> NetworkManager \<Rightarrow> request list \<Rightarrow> NetworkManager \<times> request list" where
  "getCurrentUser w s issued =
     (case performRequest w decodeUser ''/auth/me'' ''GET'' NoBody True s issued of
        (Inr user, issued') \<Rightarrow> (s\<lparr>currentUser := Some user\<rparr>, issued')
      | (Inl e, issued') \<Rightarrow> (logout s, issued'))"

definition login ::
  "Foundation \<Rightarrow> string \<Rightarrow> string \<Rightarrow> NetworkManager \<Rightarrow> request list \<Rightarrow>
     NetworkManager \<times> request list" where
  "login w u p s issued =
     (let s1 = s\<lparr>isLoading := True, errorMessage := None\<rparr> in
      case performRequest w decodeToken ''/auth/login'' ''POST''
             (JSONBody (encodeUserLogin u p)) False s1 issued of
        (Inr token, issued1) \<Rightarrow>
          (let s2 = s1\<lparr>authToken := Some (accessToken token), isAuthenticated := True\<rparr> in
           case getCurrentUser w s2 issued1 of
             (s3, issued2) \<Rightarrow> (s3\<lparr>isLoading := False\<rparr>, issued2))
      | (Inl e, issued1) \<Rightarrow>
          (s1\<lparr>errorMessage := Some (localizedDescription w e), isLoading := False\<rparr>, issued1))"

definition register ::
  "Foundation \<Rightarrow> string \<Rightarrow> string \<Rightarrow> string \<Rightarrow> NetworkManager \<Rightarrow> request list \<Rightarrow>
     NetworkManager \<times> request list" where
  "register w u e p s issued =
     (let s1 = s\<lparr>isLoading := True, errorMessage := None\<rparr> in
      case performRequest w decodeUser ''/auth/register'' ''POST''
             (JSONBody (encodeUserCreate u e p)) False s1 issued of
        (Inr user, issued1) \<Rightarrow>
          (case login w u p s1 issued1 of
             (s2, issued2) \<Rightarrow> (s2\<lparr>isLoading := False\<rparr>, issued2))
      | (Inl err, issued1) \<Rightarrow>
          (s1\<lparr>errorMessage := Some (localizedDescription w err), isLoading := False\<rparr>, issued1))"

text \<open>
  \<open>checkAuthStatus\<close> sets the flag and, when it is set, starts a task that runs
  \<open>getCurrentUser\<close>. The first component is the state when \<open>checkAuthStatus\<close> returns,
  the second tells whether the task was started.
\<close>

definition checkAuthStatus :: "NetworkManager \<Rightarrow> NetworkManager \<times> bool" where
  "checkAuthStatus s =
     (let s1 = s\<lparr>isAuthenticated := (authToken s \<noteq> None)\<rparr> in (s1, isAuthenticated s1))"

text \<open>
  \<open>init\<close>: the properties take their declared initial values, \<open>stored\<close> is what
  \<open>UserDefaults\<close> holds under \<open>auth_token\<close> from an earlier run.
\<close>

definition NetworkManager_init :: "string option \<Rightarrow> NetworkManager \<times> bool" where
  "NetworkManager_init stored =
     checkAuthStatus \<lparr>isAuthenticated = False, currentUser = None, isLoading = False,
                      errorMessage = None, authToken = stored\<rparr>"

text \<open>
  The operations that touch the authentication state, and a run of them. The task
  started by \<open>checkAuthStatus\<close> is run when \<open>checkAuthStatus\<close> has returned.
\<close>

datatype operation =
    CheckAuthStatus
  | Login string string
  | Register string string string
  | Logout
  | GetCurrentUser

fun perform ::
  "Foundation \<Rightarrow> operation \<Rightarrow> NetworkManager \<times> request list \<Rightarrow> NetworkManager \<times> request list" where
  "perform w CheckAuthStatus (s, issued) =
     (case checkAuthStatus s of
        (s1, True) \<Rightarrow> getCurrentUser w s1 issued
      | (s1, False) \<Rightarrow> (s1, issued))"
| "perform w (Login u p) (s, issued) = login w u p s issued"
| "perform w (Register u e p) (s, issued) = register w u e p s issued"
| "perform w Logout (s, issued) = (logout s, issued)"
| "perform w GetCurrentUser (s, issued) = getCurrentUser w s issued"

fun run ::
  "Foundation \<Rightarrow> operation list \<Rightarrow> NetworkManager \<times> request list \<Rightarrow> NetworkManager \<times> request list" where
  "run w [] c = c"
| "run w (x # xs) c = run w xs (perform w x c)"

subsection \<open>Image upload\<close>

text \<open>The response shape \<open>[String: String]\<close>: an object all of whose values are strings.\<close>

fun decodeStringEntries :: "(string \<times> json) list \<Rightarrow> (string \<times> string) list option" where
  "decodeStringEntries [] = Some []"
| "decodeStringEntries ((k, v) # kvs) =
     (case decodeString v of
        None \<Rightarrow> None
      | Some s \<Rightarrow> map_option ((#) (k, s)) (decodeStringEntries kvs))"

definition decodeStringDict :: "json \<Rightarrow> (string \<times> string) list option" where
  "decodeStringDict j = (case j of JObj kvs \<Rightarrow> decodeStringEntries kvs | _ \<Rightarrow> None)"

definition CRLF :: string where
  "CRLF = [char_of (13 :: nat), char_of (10 :: nat)]"

definition quoted :: "string \<Rightarrow> string" where
  "quoted x = char_of (34 :: nat) # x @ [char_of (34 :: nat)]"

text \<open>The multipart payload, lines 236-251; \<open>boundary\<close> is the fresh \<open>UUID().uuidString\<close>.\<close>

definition multipartBody :: "string \<Rightarrow> string \<Rightarrow> string \<Rightarrow> string" where
  "multipartBody boundary imageData imageType =
     ''--'' @ boundary @ CRLF
     @ ''Content-Disposition: form-data; name='' @ quoted ''file''
       @ ''; filename='' @ quoted ''image.jpg'' @ CRLF
     @ ''Content-Type: image/jpeg'' @ CRLF @ CRLF
     @ imageData
     @ CRLF
     @ ''--'' @ boundary @ CRLF
     @ ''Content-Disposition: form-data; name='' @ quoted ''image_type'' @ CRLF @ CRLF
     @ imageType
     @ CRLF
     @ ''--'' @ boundary @ ''--'' @ CRLF"

definition uploadRequest :: "string \<Rightarrow> string \<Rightarrow> string \<Rightarrow> string \<Rightarrow> request" where
  "uploadRequest token boundary imageData imageType =
     \<lparr>url = baseURL @ ''/upload-user-image'', httpMethod = ''POST'',
      headers = setValue (''multipart/form-data; boundary='' @ boundary) ''Content-Type''
                  (setValue (''Bearer '' @ token) ''Authorization'' []),
      httpBody = DataBody (multipartBody boundary imageData imageType)\<rparr>"

definition uploadImage ::
  "Foundation \<Rightarrow> string \<Rightarrow> string \<Rightarrow> string \<Rightarrow> NetworkManager \<Rightarrow> request list \<Rightarrow>
     (error + string) \<times> request list" where
  "uploadImage w boundary imageData imageType s issued =
     (case authToken s of
        None \<Rightarrow> (Inl (NetErr notAuthenticated), issued)
      | Some token \<Rightarrow>
          if \<not> URL_string w (baseURL @ ''/upload-user-image'') then (Inl Trap, issued)
          else
            let req = uploadRequest token boundary imageData imageType
            in (case URLSession_data w (length issued) req of
                  Failed d \<Rightarrow> Inl (URLError d)
                | NonHTTP \<Rightarrow> Inl (NetErr invalidResponse)
                | HTTP statusCode data \<Rightarrow>
                    if statusCode = 200 then
                      (case Option.bind data decodeStringDict of
                         Some uploadResponse \<Rightarrow>
                           Inr (case map_of uploadResponse ''url'' of Some u \<Rightarrow> u | None \<Rightarrow> [])
                       | None \<Rightarrow> Inl DecodingError)
                    else Inl (NetErr (serverError statusCode)),
                issued @ [req]))"

subsection \<open>Food logging\<close>

text \<open>
  The structs of Models.swift that the save path uses. A \<open>Double\<close> is modelled by the
  finite value it holds. Where two structs name a field alike, the later one carries a
  prefix.
\<close>

record Food =
  name :: string
  calories :: int
  proteinG :: rat
  carbsG :: rat
  fatG :: rat

record MealResponse =
  mealName :: string
  meal_mealType :: string
  meal_foods :: "Food list"
  meal_totalCalories :: int
  analysisMethod :: string

record FoodLogItem =
  item_name :: string
  item_calories :: rat
  item_proteinG :: rat
  item_carbsG :: rat
  item_fatG :: rat
  micronutrients :: "(string \<times> rat) list option"

record AchievementResponse =
  ach_name :: string
  ach_description :: string
  points :: int
  badge :: string

record SaveFoodLogResponse =
  message :: string
  logId :: string
  achievements :: "AchievementResponse list"

definition encodeFoodLogItem :: "FoodLogItem \<Rightarrow> json" where
  "encodeFoodLogItem f =
     JObj ([(''name'', JStr (item_name f)), (''calories'', JNum (item_calories f)),
            (''protein_g'', JNum (item_proteinG f)), (''carbs_g'', JNum (item_carbsG f)),
            (''fat_g'', JNum (item_fatG f))]
           @ (case micronutrients f of
                None \<Rightarrow> []
              | Some m \<Rightarrow> [(''micronutrients'', JObj (map (\<lambda>(k, v). (k, JNum v)) m))]))"

definition encodeSaveFoodLogRequest ::
  "string \<Rightarrow> string \<Rightarrow> string \<Rightarrow> FoodLogItem list \<Rightarrow> rat \<Rightarrow> json" where
  "encodeSaveFoodLogRequest userId dateString mealTime foods totalCalories =
     JObj [(''user_id'', JStr userId), (''date_string'', JStr dateString),
           (''meal_time'', JStr mealTime), (''foods'', JArr (map encodeFoodLogItem foods)),
           (''total_calories'', JNum totalCalories)]"

definition decodeAchievementResponse :: "json \<Rightarrow> AchievementResponse option" where
  "decodeAchievementResponse j = (case j of
       JObj kvs \<Rightarrow>
         Option.bind (field decodeString kvs ''name'') (\<lambda>n.
         Option.bind (field decodeString kvs ''description'') (\<lambda>d.
         Option.bind (field decodeInt kvs ''points'') (\<lambda>p.
         Option.bind (field decodeString kvs ''badge'') (\<lambda>b.
           Some \<lparr>ach_name = n, ach_description = d, points = p, badge = b\<rparr>))))
     | _ \<Rightarrow> None)"

definition decodeArray :: "(json \<Rightarrow> 'a option) \<Rightarrow> json \<Rightarrow> 'a list option" where
  "decodeArray dec j = (case j of JArr xs \<Rightarrow> those (map dec xs) | _ \<Rightarrow> None)"

definition decodeSaveFoodLogResponse :: "json \<Rightarrow> SaveFoodLogResponse option" where
  "decodeSaveFoodLogResponse j = (case j of
       JObj kvs \<Rightarrow>
         Option.bind (field decodeString kvs ''message'') (\<lambda>m.
         Option.bind (field decodeString kvs ''log_id'') (\<lambda>l.
         Option.bind (field (decodeArray decodeAchievementResponse) kvs ''achievements'') (\<lambda>a.
           Some \<lparr>message = m, logId = l, achievements = a\<rparr>)))
     | _ \<Rightarrow> None)"

text \<open>\<open>saveFoodLog\<close>, lines 145-168; \<open>dateString\<close> is today's date as formatted there.\<close>

definition saveFoodLog ::
  "Foundation \<Rightarrow> string \<Rightarrow> string \<Rightarrow> FoodLogItem list \<Rightarrow> rat \<Rightarrow> NetworkManager \<Rightarrow>
     request list \<Rightarrow> (error + SaveFoodLogResponse) \<times> request list" where
  "saveFoodLog w dateString mealTime foods totalCalories s issued =
     (case currentUser s of
        None \<Rightarrow> (Inl (NetErr notAuthenticated), issued)
      | Some user \<Rightarrow>
          performRequest w decodeSaveFoodLogResponse ''/food-logs'' ''POST''
            (JSONBody (encodeSaveFoodLogRequest (username user) dateString mealTime foods
                         totalCalories))
            True s issued)"

text \<open>
  The state of \<open>MealAnalysisView\<close> that \<open>saveMeal\<close> reads and writes, and \<open>saveMeal\<close>
  itself. The picked image is modelled by its bytes.
\<close>

record MealAnalysisView =
  selectedImage :: "string option"
  userInput :: string
  corrections :: string
  mealResponse :: "MealResponse option"
  view_errorMessage :: "string option"

text \<open>The items built from the analysed meal, lines 232-241 of the view.\<close>

definition foodLogItems :: "Foundation \<Rightarrow> MealResponse \<Rightarrow> FoodLogItem list" where
  "foodLogItems w mr =
     map (\<lambda>food. \<lparr>item_name = name food, item_calories = toDouble w (calories food),
                   item_proteinG = proteinG food, item_carbsG = carbsG food,
                   item_fatG = fatG food, micronutrients = None\<rparr>)
         (meal_foods mr)"

definition MealAnalysisView_saveMeal ::
  "Foundation \<Rightarrow> string \<Rightarrow> string \<Rightarrow> NetworkManager \<Rightarrow> MealAnalysisView \<Rightarrow> request list \<Rightarrow>
     MealAnalysisView \<times> request list" where
  "MealAnalysisView_saveMeal w dateString mealType s v issued =
     (case mealResponse v of
        None \<Rightarrow> (v, issued)
      | Some mr \<Rightarrow>
          (case saveFoodLog w dateString mealType (foodLogItems w mr)
                  (toDouble w (meal_totalCalories mr)) s issued of
             (Inr r, issued') \<Rightarrow>
               (v\<lparr>selectedImage := None, userInput := [], corrections := [],
                  mealResponse := None\<rparr>, issued')
           | (Inl e, issued') \<Rightarrow>
               (v\<lparr>view_errorMessage :=
                    Some (''Failed to save meal: '' @ localizedDescription w e)\<rparr>, issued')))"

section \<open>The React Native client\<close>

subsection \<open>The JavaScript run time\<close>

text \<open>
  A thrown value: an \<open>Error\<close> with its message, the \<open>SyntaxError\<close> of
  \<open>response.json()\<close> on a body that is not JSON, or a \<open>TypeError\<close> (a rejected
  \<open>fetch\<close>, a property read on \<open>null\<close>, a call of something that is no function).
\<close>

datatype js_error = Error string | SyntaxError | TypeError

datatype fetch_result = Rejected | Response int "json option"

text \<open>
  What the run time supplies: \<open>fetch n r\<close> is the outcome of request \<open>r\<close> when \<open>n\<close>
  requests have been issued before; \<open>ToString\<close> converts numbers, arrays and objects to
  strings; \<open>js_plus\<close> is the operator \<open>+\<close> with a left operand that is a value and a right
  operand that may be \<open>undefined\<close> (\<open>None\<close>).
\<close>

record JSRuntime =
  fetch :: "nat \<Rightarrow> request \<Rightarrow> fetch_result"
  ToString :: "json \<Rightarrow> string"
  js_plus :: "json \<Rightarrow> json option \<Rightarrow> json"

text \<open>String conversion as in a template literal; \<open>None\<close> is \<open>undefined\<close>.\<close>

fun jsToString :: "JSRuntime \<Rightarrow> json option \<Rightarrow> string" where
  "jsToString rt None = ''undefined''"
| "jsToString rt (Some JNull) = ''null''"
| "jsToString rt (Some (JBool b)) = (if b then ''true'' else ''false'')"
| "jsToString rt (Some (JStr s)) = s"
| "jsToString rt (Some v) = ToString rt v"

fun truthy :: "json \<Rightarrow> bool" where
  "truthy JNull = False"
| "truthy (JBool b) = b"
| "truthy (JNum r) = (r \<noteq> 0)"
| "truthy (JStr s) = (s \<noteq> [])"
| "truthy (JArr xs) = True"
| "truthy (JObj kvs) = True"

text \<open>
  Reading a property that no built-in prototype defines (\<open>detail\<close>, \<open>foods\<close>,
  \<open>total_calories\<close>, ...): the stored value for an object, \<open>undefined\<close> for any other
  value, and a \<open>TypeError\<close> on \<open>null\<close>.
\<close>

definition readProp :: "json \<Rightarrow> string \<Rightarrow> json option" where
  "readProp j k = (case j of JObj kvs \<Rightarrow> map_of kvs k | _ \<Rightarrow> None)"

definition getProp :: "json \<Rightarrow> string \<Rightarrow> js_error + json option" where
  "getProp j k = (case j of JNull \<Rightarrow> Inl TypeError | _ \<Rightarrow> Inr (readProp j k))"

text \<open>\<open>JSON.stringify\<close> of an object literal: properties that are \<open>undefined\<close> are left out.\<close>

definition stringifyObject :: "(string \<times> json option) list \<Rightarrow> json" where
  "stringifyObject props = JObj (List.map_filter (\<lambda>(k, v). map_option (Pair k) v) props)"

subsection \<open>config/api.js\<close>

record options =
  opt_method :: "string option"
  opt_headers :: "(string \<times> string) list"
  opt_body :: body

text \<open>
  \<open>config\<close>: the request of lines 5-20, the default header merged with the caller's.
  A caller that names no method gets the default of \<open>fetch\<close>, \<open>GET\<close>.
\<close>

definition config :: "string \<Rightarrow> options \<Rightarrow> request" where
  "config endpoint opts =
     \<lparr>url = baseURL @ endpoint,
      httpMethod = (case opt_method opts of None \<Rightarrow> ''GET'' | Some m \<Rightarrow> m),
      headers = foldl (\<lambda>hs (k, v). setValue v k hs)
                  [(''Content-Type'', ''application/json'')] (opt_headers opts),
      httpBody = opt_body opts\<rparr>"

definition apiRequest ::
  "JSRuntime \<Rightarrow> string \<Rightarrow> options \<Rightarrow> request list \<Rightarrow> (js_error + json) \<times> request list" where
  "apiRequest rt endpoint opts issued =
     (case fetch rt (length issued) (config endpoint opts) of
        Rejected \<Rightarrow> Inl TypeError
      | Response status body \<Rightarrow>
          (case body of
             None \<Rightarrow> Inl SyntaxError
           | Some data \<Rightarrow>
               if \<not> (200 \<le> status \<and> status \<le> 299) then
                 (case getProp data ''detail'' of
                    Inl e \<Rightarrow> Inl e
                  | Inr None \<Rightarrow> Inl (Error ''API request failed'')
                  | Inr (Some d) \<Rightarrow>
                      Inl (Error (if truthy d then jsToString rt (Some d)
                                  else ''API request failed'')))
               else Inr data),
      issued @ [config endpoint opts])"

subsection \<open>FoodLogScreen.js\<close>

record FoodLogScreen =
  foodLogs :: json
  refreshing :: bool
  loading :: bool

text \<open>
  \<open>loadFoodLogs\<close>, lines 25-39. \<open>user\<close> and \<open>token\<close> come from the authentication
  context, \<open>dateString\<close> is the selected date as formatted at line 27.
\<close>

definition authorization :: "JSRuntime \<Rightarrow> json \<Rightarrow> (string \<times> string) list" where
  "authorization rt token = [(''Authorization'', ''Bearer '' @ jsToString rt (Some token))]"

definition foodLogsOptions :: "JSRuntime \<Rightarrow> json \<Rightarrow> options" where
  "foodLogsOptions rt token =
     \<lparr>opt_method = None, opt_headers = authorization rt token, opt_body = NoBody\<rparr>"

definition foodLogsEndpoint :: "JSRuntime \<Rightarrow> json option \<Rightarrow> string \<Rightarrow> string" where
  "foodLogsEndpoint rt un dateString =
     ''/users/'' @ jsToString rt un @ ''/food-logs?date_filter='' @ dateString @ ''&limit=50''"

definition loadFoodLogs ::
  "JSRuntime \<Rightarrow> json \<Rightarrow> json \<Rightarrow> string \<Rightarrow> FoodLogScreen \<Rightarrow> request list \<Rightarrow>
     FoodLogScreen \<times> request list" where
  "loadFoodLogs rt user token dateString st issued =
     (case getProp user ''username'' of
        Inl e \<Rightarrow> (st\<lparr>loading := False\<rparr>, issued)
      | Inr un \<Rightarrow>
          (case apiRequest rt (foodLogsEndpoint rt un dateString) (foodLogsOptions rt token)
                  issued of
             (Inr response, issued') \<Rightarrow> (st\<lparr>foodLogs := response, loading := False\<rparr>, issued')
           | (Inl e, issued') \<Rightarrow> (st\<lparr>loading := False\<rparr>, issued')))"

text \<open>
  The values computed at each render, lines 76-77. \<open>reduce\<close> and \<open>length\<close> are read off
  an array; on any other value the render has thrown.
\<close>

fun sumCalories :: "JSRuntime \<Rightarrow> json \<Rightarrow> json list \<Rightarrow> js_error + json" where
  "sumCalories rt acc [] = Inr acc"
| "sumCalories rt acc (entry # entries) =
     (case getProp entry ''total_calories'' of
        Inl e \<Rightarrow> Inl e
      | Inr c \<Rightarrow> sumCalories rt (js_plus rt acc c) entries)"

definition totalCalories :: "JSRuntime \<Rightarrow> json \<Rightarrow> js_error + json" where
  "totalCalories rt logs =
     (case logs of JArr xs \<Rightarrow> sumCalories rt (JNum 0) xs | _ \<Rightarrow> Inl TypeError)"

definition mealCount :: "json \<Rightarrow> js_error + nat" where
  "mealCount logs = (case logs of JArr xs \<Rightarrow> Inr (length xs) | _ \<Rightarrow> Inl TypeError)"

text \<open>The summary card is part of the rendered screen when \<open>foodLogs.length > 0\<close>.\<close>

definition summaryCardShown :: "json \<Rightarrow> bool" where
  "summaryCardShown logs = (case mealCount logs of Inr n \<Rightarrow> 0 < n | Inl e \<Rightarrow> False)"

subsection \<open>MealAnalysisScreen.js\<close>

text \<open>
  The state of the screen that \<open>saveMeal\<close> reads and writes; \<open>alerts\<close> lists the
  \<open>Alert.alert\<close> calls made so far as (title, message).
\<close>

record MealAnalysisScreen =
  screen_selectedImage :: json
  screen_userInput :: string
  mealResult :: json
  showSaveOptions :: bool
  alerts :: "(string \<times> string) list"

definition foodEntry :: "json \<Rightarrow> js_error + json" where
  "foodEntry food =
     (case food of
        JNull \<Rightarrow> Inl TypeError
      | _ \<Rightarrow> Inr (stringifyObject
                   [(''name'', readProp food ''name''), (''calories'', readProp food ''calories''),
                    (''protein_g'', readProp food ''protein_g''), (''carbs_g'', readProp food ''carbs_g''),
                    (''fat_g'', readProp food ''fat_g'')]))"

fun mapFoods :: "json list \<Rightarrow> js_error + json list" where
  "mapFoods [] = Inr []"
| "mapFoods (food # foods) =
     (case foodEntry food of
        Inl e \<Rightarrow> Inl e
      | Inr x \<Rightarrow> (case mapFoods foods of Inl e \<Rightarrow> Inl e | Inr xs \<Rightarrow> Inr (x # xs)))"

text \<open>The object \<open>saveData\<close> of lines 129-141, as \<open>JSON.stringify\<close> writes it.\<close>

definition saveData :: "json \<Rightarrow> string \<Rightarrow> string \<Rightarrow> json \<Rightarrow> js_error + json" where
  "saveData user today mealType result =
     (case getProp user ''username'' of
        Inl e \<Rightarrow> Inl e
      | Inr un \<Rightarrow>
          (case readProp result ''foods'' of
             Some (JArr foods) \<Rightarrow>
               (case mapFoods foods of
                  Inl e \<Rightarrow> Inl e
                | Inr fs \<Rightarrow>
                    Inr (stringifyObject
                           [(''user_id'', un), (''date_string'', Some (JStr today)),
                            (''meal_time'', Some (JStr mealType)), (''foods'', Some (JArr fs)),
                            (''total_calories'', readProp result ''total_calories'')]))
           | _ \<Rightarrow> Inl TypeError))"

definition saveOptions :: "JSRuntime \<Rightarrow> json \<Rightarrow> json \<Rightarrow> options" where
  "saveOptions rt token d =
     \<lparr>opt_method = Some ''POST'', opt_headers = authorization rt token, opt_body = JSONBody d\<rparr>"

definition MealAnalysisScreen_saveMeal ::
  "JSRuntime \<Rightarrow> json \<Rightarrow> json \<Rightarrow> string \<Rightarrow> string \<Rightarrow> MealAnalysisScreen \<Rightarrow> request list \<Rightarrow>
     MealAnalysisScreen \<times> request list" where
  "MealAnalysisScreen_saveMeal rt user token today mealType st issued =
     (if \<not> truthy (mealResult st) then (st, issued)
      else
        (case saveData user today mealType (mealResult st) of
           Inl e \<Rightarrow> (st\<lparr>alerts := alerts st @ [(''Error'', ''Failed to save meal'')]\<rparr>, issued)
         | Inr d \<Rightarrow>
             (case apiRequest rt ''/food-logs'' (saveOptions rt token d) issued of
                (Inr r, issued') \<Rightarrow>
                  (st\<lparr>alerts := alerts st @ [(''Success'', ''Meal saved to your food log!'')],
                      screen_selectedImage := JNull, screen_userInput := [],
                      mealResult := JNull, showSaveOptions := False\<rparr>, issued')
              | (Inl e, issued') \<Rightarrow>
                  (st\<lparr>alerts := alerts st @ [(''Error'', ''Failed to save meal'')]\<rparr>, issued'))))"

section \<open>Notions used in the statements\<close>

text \<open>
  \<open>receives\<close>: a call of \<open>performRequest\<close> gets as far as issuing its request, and the
  answer is an HTTP response with this status and body. \<open>uploadReceives\<close> says the same of
  \<open>uploadImage\<close>.
\<close>

definition receives ::
  "Foundation \<Rightarrow> string \<Rightarrow> string \<Rightarrow> body \<Rightarrow> bool \<Rightarrow> NetworkManager \<Rightarrow> request list \<Rightarrow>
     int \<Rightarrow> json option \<Rightarrow> bool" where
  "receives w endpoint method body requiresAuth s issued status data =
     (URL_string w (baseURL @ endpoint) \<and> \<not> (requiresAuth \<and> authToken s = None) \<and>
      URLSession_data w (length issued)
        (buildRequest endpoint method body (if requiresAuth then authToken s else None))
        = HTTP status data)"

definition uploadReceives ::
  "Foundation \<Rightarrow> string \<Rightarrow> string \<Rightarrow> string \<Rightarrow> NetworkManager \<Rightarrow> request list \<Rightarrow>
     int \<Rightarrow> json option \<Rightarrow> bool" where
  "uploadReceives w boundary imageData imageType s issued status data =
     (case authToken s of
        None \<Rightarrow> False
      | Some token \<Rightarrow>
          URL_string w (baseURL @ ''/upload-user-image'') \<and>
          URLSession_data w (length issued) (uploadRequest token boundary imageData imageType)
            = HTTP status data)"

text \<open>
  \<open>detailOf\<close> follows the specification's words: the body decodes as a JSON object that
  holds a string under \<open>detail\<close>, and this is the string.
\<close>

definition detailOf :: "json option \<Rightarrow> string option" where
  "detailOf data = (case data of
       Some (JObj kvs) \<Rightarrow> (case map_of kvs ''detail'' of Some (JStr X) \<Rightarrow> Some X | _ \<Rightarrow> None)
     | _ \<Rightarrow> None)"

text \<open>
  \<open>accepted decode r\<close>: the answer \<open>r\<close> is an HTTP response with status 200 or 201
  whose body decodes into the expected shape.
\<close>

definition accepted :: "(json \<Rightarrow> 'u option) \<Rightarrow> session_result \<Rightarrow> bool" where
  "accepted decode r = (case r of
       HTTP status data \<Rightarrow> (status = 200 \<or> status = 201) \<and> Option.bind data decode \<noteq> None
     | _ \<Rightarrow> False)"

text \<open>Reading a decimal rendering back, to state that the rendering loses nothing.\<close>

definition digitValue :: "char \<Rightarrow> nat" where
  "digitValue c = of_char c - 48"

definition readNat :: "string \<Rightarrow> nat" where
  "readNat cs = foldl (\<lambda>a c. 10 * a + digitValue c) 0 cs"

definition readInt :: "string \<Rightarrow> int" where
  "readInt cs = (case cs of
                   [] \<Rightarrow> 0
                 | c # cs' \<Rightarrow> if c = CHR ''-'' then - int (readNat cs') else int (readNat cs))"

text \<open>The invariant of the authentication state: the flag is set exactly when a token is stored.\<close>

definition authInv :: "NetworkManager \<Rightarrow> bool" where
  "authInv s = (isAuthenticated s = (authToken s \<noteq> None))"

section \<open>Concrete platforms and documents\<close>

text \<open>
  A manager with nothing stored; a Foundation whose \<open>URL(string:)\<close> rejects a string
  with a space (the parser before iOS 17) and whose session gives the listed answers in
  turn; a JavaScript run time whose \<open>fetch\<close> gives the listed answers in turn.
\<close>

definition freshManager :: NetworkManager where
  "freshManager = \<lparr>isAuthenticated = False, currentUser = None, isLoading = False,
                    errorMessage = None, authToken = None\<rparr>"

definition noSpaces :: "string \<Rightarrow> bool" where
  "noSpaces u = (CHR '' '' \<notin> set u)"

definition scripted :: "session_result list \<Rightarrow> Foundation" where
  "scripted answers =
     \<lparr>URL_string = noSpaces,
      URLSession_data = (\<lambda>n r. if n < length answers then answers ! n else Failed ''offline''),
      decodingErrorDescription = ''The data could not be read.'',
      toDouble = of_int\<rparr>"

definition scriptedJS :: "fetch_result list \<Rightarrow> JSRuntime" where
  "scriptedJS answers =
     \<lparr>fetch = (\<lambda>n r. if n < length answers then answers ! n else Rejected),
      ToString = (\<lambda>v. ''[object Object]''),
      js_plus = (\<lambda>a b. a)\<rparr>"

definition tokenDoc :: json where
  "tokenDoc = JObj [(''access_token'', JStr ''t1''), (''token_type'', JStr ''bearer'')]"

definition aliceDoc :: json where
  "aliceDoc = JObj [(''id'', JNum 1), (''username'', JStr ''alice''),
                    (''email'', JStr ''alice@example.com''), (''is_active'', JBool True),
                    (''created_at'', JStr ''2024-01-01T00:00:00'')]"

definition alice :: User where
  "alice = \<lparr>id' = 1, username = ''alice'', email = ''alice@example.com'', isActive = True,
            createdAt = ''2024-01-01T00:00:00''\<rparr>"

definition expiredDoc :: json where
  "expiredDoc = JObj [(''detail'', JStr ''Token expired'')]"

definition mealDoc :: json where
  "mealDoc = JObj [(''meal_name'', JStr ''Oatmeal''), (''meal_type'', JStr ''breakfast''),
                   (''foods'', JArr [JObj [(''name'', JStr ''oats''), (''calories'', JNum 150),
                                           (''protein_g'', JNum 5), (''carbs_g'', JNum 27),
                                           (''fat_g'', JNum 3)]]),
                   (''total_calories'', JNum 150), (''analysis_method'', JStr ''text'')]"

definition oatmeal :: MealResponse where
  "oatmeal = \<lparr>mealName = ''Oatmeal'', meal_mealType = ''breakfast'',
              meal_foods = [\<lparr>name = ''oats'', calories = 150, proteinG = 5, carbsG = 27,
                             fatG = 3\<rparr>],
              meal_totalCalories = 150, analysisMethod = ''text''\<rparr>"

text \<open>
  A manager logged in as alice with token \<open>t1\<close>; the Swift view and the React Native
  screen after the meal above was analysed; the user object of the authentication context.
\<close>

definition loggedIn :: NetworkManager where
  "loggedIn = \<lparr>isAuthenticated = True, currentUser = Some alice, isLoading = False,
                errorMessage = None, authToken = Some ''t1''\<rparr>"

definition analysedView :: MealAnalysisView where
  "analysedView = \<lparr>selectedImage = None, userInput = ''oatmeal'', corrections = [],
                    mealResponse = Some oatmeal, view_errorMessage = None\<rparr>"

definition analysedScreen :: MealAnalysisScreen where
  "analysedScreen = \<lparr>screen_selectedImage = JNull, screen_userInput = ''oatmeal'',
                      mealResult = mealDoc, showSaveOptions = True, alerts = []\<rparr>"

definition aliceJS :: json where
  "aliceJS = JObj [(''username'', JStr ''alice'')]"

definition emptyScreen :: FoodLogScreen where
  "emptyScreen = \<lparr>foodLogs = JArr [], refreshing = False, loading = True\<rparr>"

section \<open>Auxiliary facts\<close>

subsection \<open>Decimal rendering\<close>

lemma digitValue_digit: "n < 10 \<Longrightarrow> digitValue (digit n) = n"
proof -
  assume "n < 10"
  then have "n \<in> {0, 1, 2, 3, 4, 5, 6, 7, 8, 9}" by auto
  then show ?thesis by (auto simp: digitValue_def digit_def)
qed

lemma digit_not_minus: "n < 10 \<Longrightarrow> digit n \<noteq> CHR ''-''"
proof -
  assume "n < 10"
  then have "n \<in> {0, 1, 2, 3, 4, 5, 6, 7, 8, 9}" by auto
  then show ?thesis by (auto simp: digit_def)
qed

lemma readNat_snoc: "readNat (cs @ [c]) = 10 * readNat cs + digitValue c"
  by (simp add: readNat_def)

lemma readNat_showNat: "readNat (showNat n) = n"
proof (induction n rule: showNat.induct)
  case (1 n)
  show ?case
  proof (cases "n < 10")
    case True
    then show ?thesis by (simp add: showNat.simps[of n] readNat_def digitValue_digit)
  next
    case False
    then have "showNat n = showNat (n div 10) @ [digit (n mod 10)]"
      by (simp add: showNat.simps[of n])
    then have "readNat (showNat n)
                 = 10 * readNat (showNat (n div 10)) + digitValue (digit (n mod 10))"
      by (simp only: readNat_snoc)
    also have "\<dots> = 10 * (n div 10) + n mod 10"
      using 1 False by (simp add: digitValue_digit)
    finally show ?thesis by simp
  qed
qed

lemma showNat_starts_with_digit: "\<exists>c cs. showNat n = c # cs \<and> c \<noteq> CHR ''-''"
proof (induction n rule: showNat.induct)
  case (1 n)
  show ?case
  proof (cases "n < 10")
    case True
    then show ?thesis by (simp add: showNat.simps[of n] digit_not_minus)
  next
    case False
    with 1 obtain c cs where "showNat (n div 10) = c # cs" "c \<noteq> CHR ''-''" by blast
    with False show ?thesis by (simp add: showNat.simps[of n])
  qed
qed

lemma readInt_showInt: "readInt (showInt i) = i"
proof (cases "i < 0")
  case True
  then show ?thesis by (simp add: readInt_def showInt_def readNat_showNat)
next
  case False
  obtain c cs where h: "showNat (nat i) = c # cs" "c \<noteq> CHR ''-''"
    using showNat_starts_with_digit by blast
  have "readNat (c # cs) = nat i" using readNat_showNat[of "nat i"] h by simp
  with False h show ?thesis by (simp add: readInt_def showInt_def)
qed

subsection \<open>What the Swift request handler does with a response\<close>

lemma decodeAPIError_detailOf:
  "Option.bind data decodeAPIError = map_option (\<lambda>X. \<lparr>detail = X\<rparr>) (detailOf data)"
  by (cases data)
     (auto simp: decodeAPIError_def detailOf_def field_def decodeString_def
           split: json.splits option.splits)

lemma performRequest_received:
  "receives w endpoint method body ra s issued status data \<Longrightarrow>
   performRequest w decode endpoint method body ra s issued =
     (if status = 200 \<or> status = 201 then
        (case Option.bind data decode of Some v \<Rightarrow> Inr v | None \<Rightarrow> Inl DecodingError)
      else
        Inl (NetErr (case detailOf data of Some X \<Rightarrow> apiError X | None \<Rightarrow> serverError status)),
      issued @ [buildRequest endpoint method body (if ra then authToken s else None)])"
  by (auto simp: receives_def performRequest_def decodeAPIError_detailOf split: option.splits)

lemma performRequest_not_accepted:
  assumes "URL_string w (baseURL @ endpoint)" and "\<not> (ra \<and> authToken s = None)"
    and "\<not> accepted decode (URLSession_data w (length issued)
              (buildRequest endpoint method body (if ra then authToken s else None)))"
  shows "\<exists>e. fst (performRequest w decode endpoint method body ra s issued) = Inl e"
  using assms
  by (auto simp: performRequest_def accepted_def split: session_result.splits option.splits)

lemma uploadImage_received:
  "uploadReceives w boundary imageData imageType s issued status data \<Longrightarrow>
   fst (uploadImage w boundary imageData imageType s issued) =
     (if status = 200 then
        (case Option.bind data decodeStringDict of
           Some uploadResponse \<Rightarrow>
             Inr (case map_of uploadResponse ''url'' of Some u \<Rightarrow> u | None \<Rightarrow> [])
         | None \<Rightarrow> Inl DecodingError)
      else Inl (NetErr (serverError status)))"
  by (auto simp: uploadReceives_def uploadImage_def split: option.splits)

lemma decodeStringEntries_keys:
  "decodeStringEntries kvs = Some d \<Longrightarrow> map fst d = map fst kvs"
  by (induction kvs arbitrary: d) (auto split: option.splits)

lemma decodeStringEntries_lookup_None:
  assumes "decodeStringEntries kvs = Some d" and "map_of kvs k = None"
  shows "map_of d k = None"
proof -
  have "k \<notin> set (map fst kvs)" using assms(2) by (simp add: map_of_eq_None_iff)
  then have "k \<notin> set (map fst d)" using decodeStringEntries_keys[OF assms(1)] by simp
  then show ?thesis by (simp add: map_of_eq_None_iff)
qed

subsection \<open>What apiRequest does with a response\<close>

lemma apiRequest_received:
  "fetch rt (length issued) (config endpoint opts) = Response status body \<Longrightarrow>
   fst (apiRequest rt endpoint opts issued) =
     (case body of
        None \<Rightarrow> Inl SyntaxError
      | Some data \<Rightarrow>
          if \<not> (200 \<le> status \<and> status \<le> 299) then
            (case getProp data ''detail'' of
               Inl e \<Rightarrow> Inl e
             | Inr None \<Rightarrow> Inl (Error ''API request failed'')
             | Inr (Some d) \<Rightarrow>
                 Inl (Error (if truthy d then jsToString rt (Some d)
                             else ''API request failed'')))
          else Inr data)"
  by (auto simp: apiRequest_def split: option.splits)

lemma apiRequest_issues:
  "snd (apiRequest rt endpoint opts issued) = issued @ [config endpoint opts]"
  by (simp add: apiRequest_def)

lemma apiRequest_detail:
  assumes "fetch rt (length issued) (config endpoint opts) = Response status (Some data)"
    and "\<not> (200 \<le> status \<and> status \<le> 299)"
    and "detailOf (Some data) = Some X" and "X \<noteq> []"
  shows "fst (apiRequest rt endpoint opts issued) = Inl (Error X)"
  using assms
  by (auto simp: apiRequest_received getProp_def readProp_def detailOf_def
           split: json.splits option.splits)

lemma apiRequest_no_detail:
  assumes "fetch rt (length issued) (config endpoint opts) = Response status (Some data)"
    and "\<not> (200 \<le> status \<and> status \<le> 299)"
    and "data \<noteq> JNull" and "\<forall>d. readProp data ''detail'' = Some d \<longrightarrow> \<not> truthy d"
  shows "fst (apiRequest rt endpoint opts issued) = Inl (Error ''API request failed'')"
  using assms by (cases data) (auto simp: apiRequest_received getProp_def split: option.splits)

subsection \<open>The summary card\<close>

text \<open>With an empty list the screen renders its empty state and no summary card.\<close>

lemma empty_list_hides_summary_card: "\<not> summaryCardShown (JArr [])"
  by (simp add: summaryCardShown_def mealCount_def)

subsection \<open>The authentication invariant, operation by operation\<close>

lemma getCurrentUser_cases:
  "(\<exists>user. fst (getCurrentUser w s issued) = s\<lparr>currentUser := Some user\<rparr>)
     \<or> fst (getCurrentUser w s issued) = logout s"
  by (auto simp: getCurrentUser_def split: prod.splits sum.splits)

lemma authInv_getCurrentUser: "authInv s \<Longrightarrow> authInv (fst (getCurrentUser w s issued))"
  using getCurrentUser_cases[of w s issued] by (auto simp: authInv_def logout_def)

lemma authInv_login: "authInv s \<Longrightarrow> authInv (fst (login w u p s issued))"
proof -
  assume a: "authInv s"
  let ?s1 = "s\<lparr>isLoading := True, errorMessage := None\<rparr>"
  show ?thesis
  proof (cases "performRequest w decodeToken ''/auth/login'' ''POST''
                  (JSONBody (encodeUserLogin u p)) False ?s1 issued")
    case (Pair r issued1)
    show ?thesis
    proof (cases r)
      case (Inl e)
      with Pair a show ?thesis by (simp add: login_def authInv_def)
    next
      case (Inr token)
      let ?s2 = "?s1\<lparr>authToken := Some (accessToken token), isAuthenticated := True\<rparr>"
      have "authInv ?s2" by (simp add: authInv_def)
      then have "authInv (fst (getCurrentUser w ?s2 issued1))" by (rule authInv_getCurrentUser)
      with Pair Inr show ?thesis
        by (auto simp: login_def authInv_def split: prod.splits)
    qed
  qed
qed

lemma authInv_register: "authInv s \<Longrightarrow> authInv (fst (register w u e p s issued))"
proof -
  assume a: "authInv s"
  let ?s1 = "s\<lparr>isLoading := True, errorMessage := None\<rparr>"
  have s1: "authInv ?s1" using a by (simp add: authInv_def)
  show ?thesis
  proof (cases "performRequest w decodeUser ''/auth/register'' ''POST''
                  (JSONBody (encodeUserCreate u e p)) False ?s1 issued")
    case (Pair r issued1)
    show ?thesis
    proof (cases r)
      case (Inl err)
      with Pair a show ?thesis by (simp add: register_def authInv_def)
    next
      case (Inr user)
      have "authInv (fst (login w u p ?s1 issued1))" using s1 by (rule authInv_login)
      with Pair Inr show ?thesis
        by (auto simp: register_def authInv_def split: prod.splits)
    qed
  qed
qed

lemma authInv_checkAuthStatus: "authInv (fst (checkAuthStatus s))"
  by (simp add: checkAuthStatus_def authInv_def)

lemma authInv_perform: "authInv (fst c) \<Longrightarrow> authInv (fst (perform w x c))"
proof (cases c)
  case (Pair s issued)
  assume "authInv (fst c)"
  with Pair have a: "authInv s" by simp
  show ?thesis
  proof (cases x)
    case CheckAuthStatus
    have "authInv (fst (checkAuthStatus s))" by (rule authInv_checkAuthStatus)
    then show ?thesis
      using Pair CheckAuthStatus authInv_getCurrentUser[of "fst (checkAuthStatus s)" w issued]
      by (auto split: prod.splits bool.splits)
  next
    case (Login u p)
    with Pair a show ?thesis by (simp add: authInv_login)
  next
    case (Register u e p)
    with Pair a show ?thesis by (simp add: authInv_register)
  next
    case Logout
    with Pair show ?thesis by (simp add: logout_def authInv_def)
  next
    case GetCurrentUser
    with Pair a show ?thesis by (simp add: authInv_getCurrentUser)
  qed
qed

lemma authInv_run: "authInv (fst c) \<Longrightarrow> authInv (fst (run w xs c))"
  by (induction xs arbitrary: c) (auto simp: authInv_perform)

subsection \<open>Login, step by step\<close>

lemma login_received_token:
  assumes "receives w ''/auth/login'' ''POST'' (JSONBody (encodeUserLogin u p)) False s issued
             status (Some j)"
    and "status = 200 \<or> status = 201" and "decodeToken j = Some tok"
  shows "login w u p s issued =
           (case getCurrentUser w
                   (s\<lparr>isLoading := True, errorMessage := None,
                      authToken := Some (accessToken tok), isAuthenticated := True\<rparr>)
                   (issued @ [buildRequest ''/auth/login'' ''POST''
                                (JSONBody (encodeUserLogin u p)) None]) of
              (s3, issued2) \<Rightarrow> (s3\<lparr>isLoading := False\<rparr>, issued2))"
proof -
  let ?s1 = "s\<lparr>isLoading := True, errorMessage := None\<rparr>"
  have "receives w ''/auth/login'' ''POST'' (JSONBody (encodeUserLogin u p)) False ?s1 issued
          status (Some j)"
    using assms(1) by (simp add: receives_def)
  then have "performRequest w decodeToken ''/auth/login'' ''POST''
               (JSONBody (encodeUserLogin u p)) False ?s1 issued
             = (Inr tok, issued @ [buildRequest ''/auth/login'' ''POST''
                                     (JSONBody (encodeUserLogin u p)) None])"
    using assms(2,3) by (auto simp: performRequest_received)
  then show ?thesis by (simp add: login_def)
qed

lemma getCurrentUser_accepted:
  assumes "authToken s = Some t" and "URL_string w (baseURL @ ''/auth/me'')"
    and "accepted decodeUser
           (URLSession_data w (length issued) (buildRequest ''/auth/me'' ''GET'' NoBody (Some t)))"
  shows "\<exists>user. getCurrentUser w s issued =
           (s\<lparr>currentUser := Some user\<rparr>,
            issued @ [buildRequest ''/auth/me'' ''GET'' NoBody (Some t)])"
  using assms
  by (auto simp: getCurrentUser_def performRequest_def accepted_def
           split: session_result.splits option.splits)

lemma getCurrentUser_failed:
  "fst (performRequest w decodeUser ''/auth/me'' ''GET'' NoBody True s issued) = Inl e \<Longrightarrow>
   fst (getCurrentUser w s issued) = logout s"
  by (auto simp: getCurrentUser_def split: prod.splits sum.splits)

lemma getCurrentUser_not_accepted:
  assumes "authToken s = Some t"
    and "\<not> (URL_string w (baseURL @ ''/auth/me'') \<and> accepted decodeUser
           (URLSession_data w (length issued) (buildRequest ''/auth/me'' ''GET'' NoBody (Some t))))"
  shows "fst (getCurrentUser w s issued) = logout s"
proof (cases "URL_string w (baseURL @ ''/auth/me'')")
  case False
  then have "fst (performRequest w decodeUser ''/auth/me'' ''GET'' NoBody True s issued)
               = Inl (NetErr invalidURL)"
    by (simp add: performRequest_def)
  then show ?thesis by (rule getCurrentUser_failed)
next
  case True
  with assms obtain e where
    "fst (performRequest w decodeUser ''/auth/me'' ''GET'' NoBody True s issued) = Inl e"
    using performRequest_not_accepted[of w "''/auth/me''" True s decodeUser issued "''GET''" NoBody]
    by auto
  then show ?thesis by (rule getCurrentUser_failed)
qed

lemma login_followed_up:
  assumes "receives w ''/auth/login'' ''POST'' (JSONBody (encodeUserLogin u p)) False s issued
             status (Some j)"
    and "status = 200 \<or> status = 201" and "decodeToken j = Some tok"
    and "URL_string w (baseURL @ ''/auth/me'')"
    and "accepted decodeUser (URLSession_data w (Suc (length issued))
           (buildRequest ''/auth/me'' ''GET'' NoBody (Some (accessToken tok))))"
  shows "authToken (fst (login w u p s issued)) = Some (accessToken tok)
           \<and> isAuthenticated (fst (login w u p s issued))"
proof -
  let ?s2 = "s\<lparr>isLoading := True, errorMessage := None,
               authToken := Some (accessToken tok), isAuthenticated := True\<rparr>"
  let ?issued1 = "issued @ [buildRequest ''/auth/login'' ''POST''
                              (JSONBody (encodeUserLogin u p)) None]"
  have "authToken ?s2 = Some (accessToken tok)" by simp
  moreover have "length ?issued1 = Suc (length issued)" by simp
  ultimately obtain user where
    "getCurrentUser w ?s2 ?issued1 =
       (?s2\<lparr>currentUser := Some user\<rparr>,
        ?issued1 @ [buildRequest ''/auth/me'' ''GET'' NoBody (Some (accessToken tok))])"
    using getCurrentUser_accepted[of ?s2 "accessToken tok" w ?issued1] assms(4,5) by auto
  then show ?thesis
    by (simp add: login_received_token[OF assms(1-3)])
qed

lemma login_not_followed_up:
  assumes "receives w ''/auth/login'' ''POST'' (JSONBody (encodeUserLogin u p)) False s issued
             status (Some j)"
    and "status = 200 \<or> status = 201" and "decodeToken j = Some tok"
    and "\<not> (URL_string w (baseURL @ ''/auth/me'') \<and>
            accepted decodeUser (URLSession_data w (Suc (length issued))
              (buildRequest ''/auth/me'' ''GET'' NoBody (Some (accessToken tok)))))"
  shows "authToken (fst (login w u p s issued)) = None
           \<and> \<not> isAuthenticated (fst (login w u p s issued))"
proof -
  let ?s2 = "s\<lparr>isLoading := True, errorMessage := None,
               authToken := Some (accessToken tok), isAuthenticated := True\<rparr>"
  let ?issued1 = "issued @ [buildRequest ''/auth/login'' ''POST''
                              (JSONBody (encodeUserLogin u p)) None]"
  have "authToken ?s2 = Some (accessToken tok)" by simp
  moreover have "length ?issued1 = Suc (length issued)" by simp
  ultimately have "fst (getCurrentUser w ?s2 ?issued1) = logout ?s2"
    using getCurrentUser_not_accepted[of ?s2 "accessToken tok" w ?issued1] assms(4) by auto
  then show ?thesis
    by (auto simp: login_received_token[OF assms(1-3)] logout_def split: prod.splits)
qed

section \<open>The claims\<close>

text \<open>
  C1, as the code has it. In the Swift client a call with the auth-required flag set while
  no bearer token is stored issues no request and fails: with not-authenticated when the
  URL can be constructed, and with invalid-URL when it cannot, since the URL is checked
  first. The image upload, which checks the token itself, fails with not-authenticated and
  issues nothing; \<open>getCurrentUser\<close> and \<open>saveFoodLog\<close>, which go through the request
  handler, issue nothing either. The React Native \<open>apiRequest\<close> has no auth-required flag
  and always issues its request.
\<close>

theorem C1_no_token_no_request:
  "authToken s = None \<Longrightarrow>
   performRequest w decode endpoint method body True s issued =
     (Inl (NetErr (if URL_string w (baseURL @ endpoint) then notAuthenticated else invalidURL)),
      issued)
   \<and> uploadImage w boundary imageData imageType s issued
       = (Inl (NetErr notAuthenticated), issued)
   \<and> getCurrentUser w s issued = (logout s, issued)
   \<and> snd (saveFoodLog w dateString mealTime foods totalKcal s issued) = issued
   \<and> snd (apiRequest rt jsEndpoint opts jsIssued) = jsIssued @ [config jsEndpoint opts]"
  by (simp add: performRequest_def uploadImage_def apiRequest_issues getCurrentUser_def
        saveFoodLog_def split: option.splits)

theorem C1_no_token_no_request_witness:
  "authToken freshManager = None \<and>
   performRequest (scripted []) decodeUser ''/auth/me'' ''GET'' NoBody True freshManager []
     = (Inl (NetErr notAuthenticated), []) \<and>
   uploadImage (scripted []) ''b'' ''jpeg'' ''meal'' freshManager []
     = (Inl (NetErr notAuthenticated), [])"
proof -
  have h: "authToken freshManager = None" by (simp add: freshManager_def)
  have u: "URL_string (scripted []) (baseURL @ ''/auth/me'')"
    by (simp add: scripted_def noSpaces_def baseURL_def)
  from C1_no_token_no_request[OF h, of "scripted []" decodeUser "''/auth/me''" "''GET''" NoBody "[]"
         "''b''" "''jpeg''" "''meal''"] h u
  show ?thesis by simp
qed

text \<open>
  C1 as stated fails. The React Native client has no such check: with no token in the
  authentication context (\<open>null\<close>), the food-log list call, which needs authentication,
  is issued all the same, with the header \<open>Authorization: Bearer null\<close>. In the Swift
  client the URL is checked before the token: where \<open>URL(string:)\<close> rejects the URL (here
  for the space in its path), a call with the flag set and no stored token ends with
  invalid-URL, not with not-authenticated.
\<close>

theorem C1_counterexample:
  "map url (snd (loadFoodLogs (scriptedJS [Response 401 (Some expiredDoc)]) aliceJS JNull
                   ''2024-01-01'' emptyScreen []))
   = [''https://nutai-production.up.railway.app/users/alice/food-logs?date_filter=2024-01-01&limit=50'']
   \<and> map headers (snd (loadFoodLogs (scriptedJS [Response 401 (Some expiredDoc)]) aliceJS JNull
                         ''2024-01-01'' emptyScreen []))
       = [[(''Content-Type'', ''application/json''), (''Authorization'', ''Bearer null'')]]
   \<and> authToken freshManager = None
   \<and> fst (performRequest (scripted []) decodeUser ''/users/a b/profile'' ''GET'' NoBody True
            freshManager []) = Inl (NetErr invalidURL)
   \<and> invalidURL \<noteq> notAuthenticated"
proof -
  have js: "snd (loadFoodLogs (scriptedJS [Response 401 (Some expiredDoc)]) aliceJS JNull
                   ''2024-01-01'' emptyScreen [])
            = [\<lparr>url = ''https://nutai-production.up.railway.app/users/alice/food-logs?date_filter=2024-01-01&limit=50'',
                httpMethod = ''GET'',
                headers = [(''Content-Type'', ''application/json''),
                           (''Authorization'', ''Bearer null'')],
                httpBody = NoBody\<rparr>]"
    by (simp add: loadFoodLogs_def getProp_def readProp_def aliceJS_def apiRequest_def
          scriptedJS_def config_def foodLogsEndpoint_def foodLogsOptions_def authorization_def
          baseURL_def expiredDoc_def)
  have swift: "fst (performRequest (scripted []) decodeUser ''/users/a b/profile'' ''GET'' NoBody
                      True freshManager []) = Inl (NetErr invalidURL)"
    by (simp add: performRequest_def scripted_def freshManager_def noSpaces_def baseURL_def)
  from js swift show ?thesis by (simp add: freshManager_def)
qed

text \<open>
  C2, as the code has it. Swift \<open>performRequest\<close>: for every response whose status is
  neither 200 nor 201, the error is the API error carrying exactly X when the body
  decodes as an object with a string \<open>detail\<close> = X, and otherwise the server error of the
  status code, whose message is "Server error: " followed by the code in decimal (from
  which the code can be read back). Swift \<open>uploadImage\<close> reports the server error of the
  status code for every status other than 200, whatever the body. React Native
  \<open>apiRequest\<close>: for every status outside 200..299 with a JSON body, the thrown error
  carries X when \<open>detail\<close> is the non-empty string X, and the fixed message
  "API request failed", which does not depend on the status, when the body is not
  \<open>null\<close> and has no truthy \<open>detail\<close>.
\<close>

theorem C2_error_message:
  "(receives w endpoint method body ra s issued status data \<and> status \<noteq> 200 \<and> status \<noteq> 201 \<longrightarrow>
      fst (performRequest w decode endpoint method body ra s issued) =
        Inl (NetErr (case detailOf data of Some X \<Rightarrow> apiError X | None \<Rightarrow> serverError status)))
   \<and> errorDescription (apiError X) = X
   \<and> errorDescription (serverError code) = ''Server error: '' @ showInt code
   \<and> readInt (showInt code) = code
   \<and> (uploadReceives w boundary imageData imageType s issued status data \<and> status \<noteq> 200 \<longrightarrow>
        fst (uploadImage w boundary imageData imageType s issued)
          = Inl (NetErr (serverError status)))
   \<and> (fetch rt (length jsIssued) (config jsEndpoint opts) = Response jsStatus (Some jsData)
        \<and> \<not> (200 \<le> jsStatus \<and> jsStatus \<le> 299) \<longrightarrow>
        (detailOf (Some jsData) = Some X \<and> X \<noteq> [] \<longrightarrow>
           fst (apiRequest rt jsEndpoint opts jsIssued) = Inl (Error X))
        \<and> (jsData \<noteq> JNull \<and> (\<forall>d. readProp jsData ''detail'' = Some d \<longrightarrow> \<not> truthy d) \<longrightarrow>
             fst (apiRequest rt jsEndpoint opts jsIssued) = Inl (Error ''API request failed'')))"
proof -
  have swift: "receives w endpoint method body ra s issued status data \<and> status \<noteq> 200
                 \<and> status \<noteq> 201 \<longrightarrow>
      fst (performRequest w decode endpoint method body ra s issued) =
        Inl (NetErr (case detailOf data of Some X \<Rightarrow> apiError X | None \<Rightarrow> serverError status))"
    using performRequest_received[of w endpoint "method" body ra s issued status data decode]
    by auto
  have upload: "uploadReceives w boundary imageData imageType s issued status data
                  \<and> status \<noteq> 200 \<longrightarrow>
        fst (uploadImage w boundary imageData imageType s issued)
          = Inl (NetErr (serverError status))"
    using uploadImage_received[of w boundary imageData imageType s issued status data]
    by auto
  have js: "fetch rt (length jsIssued) (config jsEndpoint opts) = Response jsStatus (Some jsData)
        \<and> \<not> (200 \<le> jsStatus \<and> jsStatus \<le> 299) \<longrightarrow>
        (detailOf (Some jsData) = Some X \<and> X \<noteq> [] \<longrightarrow>
           fst (apiRequest rt jsEndpoint opts jsIssued) = Inl (Error X))
        \<and> (jsData \<noteq> JNull \<and> (\<forall>d. readProp jsData ''detail'' = Some d \<longrightarrow> \<not> truthy d) \<longrightarrow>
             fst (apiRequest rt jsEndpoint opts jsIssued) = Inl (Error ''API request failed''))"
    using apiRequest_detail[of rt jsIssued jsEndpoint opts jsStatus jsData X]
          apiRequest_no_detail[of rt jsIssued jsEndpoint opts jsStatus jsData]
    by blast
  show ?thesis
    using swift upload js by (simp add: readInt_showInt)
qed

theorem C2_error_message_witness:
  "fst (performRequest (scripted [HTTP 401 (Some expiredDoc)]) decodeUser ''/auth/me'' ''GET''
          NoBody True loggedIn []) = Inl (NetErr (apiError ''Token expired'')) \<and>
   fst (performRequest (scripted [HTTP 500 None]) decodeUser ''/auth/me'' ''GET''
          NoBody True loggedIn []) = Inl (NetErr (serverError 500)) \<and>
   errorDescription (serverError 500) = ''Server error: 500'' \<and>
   fst (uploadImage (scripted [HTTP 401 (Some expiredDoc)]) ''b'' ''jpeg'' ''meal'' loggedIn [])
     = Inl (NetErr (serverError 401)) \<and>
   fst (apiRequest (scriptedJS [Response 401 (Some expiredDoc)]) ''/food-logs''
          (saveOptions (scriptedJS [Response 401 (Some expiredDoc)]) (JStr ''t1'') JNull) [])
     = Inl (Error ''Token expired'') \<and>
   fst (apiRequest (scriptedJS [Response 500 (Some (JObj []))]) ''/food-logs''
          (saveOptions (scriptedJS [Response 500 (Some (JObj []))]) (JStr ''t1'') JNull) [])
     = Inl (Error ''API request failed'')"
proof -
  let ?w1 = "scripted [HTTP 401 (Some expiredDoc)]"
  let ?w2 = "scripted [HTTP 500 None]"
  let ?r1 = "scriptedJS [Response 401 (Some expiredDoc)]"
  let ?r2 = "scriptedJS [Response 500 (Some (JObj []))]"
  have url: "noSpaces (baseURL @ ''/auth/me'')" "noSpaces (baseURL @ ''/upload-user-image'')"
    by (simp_all add: noSpaces_def baseURL_def)
  have a1: "receives ?w1 ''/auth/me'' ''GET'' NoBody True loggedIn [] 401 (Some expiredDoc)"
    using url by (simp add: receives_def scripted_def loggedIn_def)
  have a2: "receives ?w2 ''/auth/me'' ''GET'' NoBody True loggedIn [] 500 None"
    using url by (simp add: receives_def scripted_def loggedIn_def)
  have a3: "uploadReceives ?w1 ''b'' ''jpeg'' ''meal'' loggedIn [] 401 (Some expiredDoc)"
    using url by (simp add: uploadReceives_def scripted_def loggedIn_def)
  have a4: "fetch ?r1 (length []) (config ''/food-logs'' (saveOptions ?r1 (JStr ''t1'') JNull))
              = Response 401 (Some expiredDoc)"
    by (simp add: scriptedJS_def)
  have a5: "fetch ?r2 (length []) (config ''/food-logs'' (saveOptions ?r2 (JStr ''t1'') JNull))
              = Response 500 (Some (JObj []))"
    by (simp add: scriptedJS_def)
  have d1: "detailOf (Some expiredDoc) = Some ''Token expired''"
    by (simp add: detailOf_def expiredDoc_def)
  have d2: "detailOf None = None" by (simp add: detailOf_def)
  have d3: "\<forall>d. readProp (JObj []) ''detail'' = Some d \<longrightarrow> \<not> truthy d"
    by (simp add: readProp_def)
  note swift = C2_error_message[THEN conjunct1, rule_format]
  note descr = C2_error_message[THEN conjunct2, THEN conjunct2, THEN conjunct1]
  note upload = C2_error_message[THEN conjunct2, THEN conjunct2, THEN conjunct2, THEN conjunct2,
                  THEN conjunct1, rule_format]
  note js = C2_error_message[THEN conjunct2, THEN conjunct2, THEN conjunct2, THEN conjunct2,
              THEN conjunct2, rule_format]
  note js1 = js[THEN conjunct1, rule_format]
  note js2 = js[THEN conjunct2, rule_format]
  have s1: "fst (performRequest ?w1 decodeUser ''/auth/me'' ''GET'' NoBody True loggedIn [])
              = Inl (NetErr (apiError ''Token expired''))"
    using swift[of ?w1 "''/auth/me''" "''GET''" NoBody True loggedIn "[]" 401
            "Some expiredDoc" decodeUser] a1 d1
    by simp
  have s2: "fst (performRequest ?w2 decodeUser ''/auth/me'' ''GET'' NoBody True loggedIn [])
              = Inl (NetErr (serverError 500))"
    using swift[of ?w2 "''/auth/me''" "''GET''" NoBody True loggedIn "[]" 500 None decodeUser]
          a2 d2
    by simp
  have s3: "errorDescription (serverError 500) = ''Server error: 500''"
    using descr[of 500] by (simp add: showInt_def showNat.simps digit_def)
  have s4: "fst (uploadImage ?w1 ''b'' ''jpeg'' ''meal'' loggedIn [])
              = Inl (NetErr (serverError 401))"
    using upload[of ?w1 "''b''" "''jpeg''" "''meal''" loggedIn "[]" 401 "Some expiredDoc"] a3
    by simp
  have s5: "fst (apiRequest ?r1 ''/food-logs'' (saveOptions ?r1 (JStr ''t1'') JNull) [])
              = Inl (Error ''Token expired'')"
    using js1[where rt = ?r1 and jsIssued = "[]" and jsEndpoint = "''/food-logs''"
            and opts = "saveOptions ?r1 (JStr ''t1'') JNull" and jsStatus = 401
            and jsData = expiredDoc and X = "''Token expired''"] a4 d1
    by simp
  have s6: "fst (apiRequest ?r2 ''/food-logs'' (saveOptions ?r2 (JStr ''t1'') JNull) [])
              = Inl (Error ''API request failed'')"
    using js2[where rt = ?r2 and jsIssued = "[]" and jsEndpoint = "''/food-logs''"
            and opts = "saveOptions ?r2 (JStr ''t1'') JNull" and jsStatus = 500
            and jsData = "JObj []"] a5 d3
    by simp
  from s1 s2 s3 s4 s5 s6 show ?thesis by simp
qed

text \<open>
  C2 as stated fails on the React Native client: a 500 and a 404 whose body has no
  \<open>detail\<close> surface the same error, whose message names no status code.
\<close>

theorem C2_counterexample:
  "fst (apiRequest (scriptedJS [Response 500 (Some (JObj []))]) ''/food-logs''
          (saveOptions (scriptedJS [Response 500 (Some (JObj []))]) (JStr ''t1'') JNull) [])
     = Inl (Error ''API request failed'') \<and>
   fst (apiRequest (scriptedJS [Response 404 (Some (JObj []))]) ''/food-logs''
          (saveOptions (scriptedJS [Response 404 (Some (JObj []))]) (JStr ''t1'') JNull) [])
     = Inl (Error ''API request failed'')"
  by (simp add: apiRequest_def scriptedJS_def getProp_def readProp_def)

text \<open>
  C3, as the code has it. For a response that Swift \<open>performRequest\<close> receives, the call
  returns a value exactly when the status is 200 or 201 and the body decodes into the
  expected shape, and the value is the decoded body. For a response that Swift
  \<open>uploadImage\<close> receives, the call returns exactly when the status is 200 and the body
  decodes as a dictionary of strings. For a response that React Native \<open>apiRequest\<close>
  receives, the call returns exactly when the status lies in 200..299 and the body is
  JSON, and it returns the parsed body.
\<close>

theorem C3_success_condition:
  "(receives w endpoint method body ra s issued status data \<longrightarrow>
      ((\<exists>v. fst (performRequest w decode endpoint method body ra s issued) = Inr v)
         \<longleftrightarrow> (status = 200 \<or> status = 201) \<and> Option.bind data decode \<noteq> None)
      \<and> (\<forall>v. fst (performRequest w decode endpoint method body ra s issued) = Inr v
             \<longrightarrow> Option.bind data decode = Some v))
   \<and> (uploadReceives w boundary imageData imageType s issued status data \<longrightarrow>
        ((\<exists>u. fst (uploadImage w boundary imageData imageType s issued) = Inr u)
           \<longleftrightarrow> status = 200 \<and> Option.bind data decodeStringDict \<noteq> None))
   \<and> (fetch rt (length jsIssued) (config jsEndpoint opts) = Response jsStatus jsBody \<longrightarrow>
        ((\<exists>d. fst (apiRequest rt jsEndpoint opts jsIssued) = Inr d)
           \<longleftrightarrow> 200 \<le> jsStatus \<and> jsStatus \<le> 299 \<and> jsBody \<noteq> None)
        \<and> (\<forall>d. fst (apiRequest rt jsEndpoint opts jsIssued) = Inr d \<longrightarrow> jsBody = Some d))"
proof -
  have swift: "receives w endpoint method body ra s issued status data \<longrightarrow>
      ((\<exists>v. fst (performRequest w decode endpoint method body ra s issued) = Inr v)
         \<longleftrightarrow> (status = 200 \<or> status = 201) \<and> Option.bind data decode \<noteq> None)
      \<and> (\<forall>v. fst (performRequest w decode endpoint method body ra s issued) = Inr v
             \<longrightarrow> Option.bind data decode = Some v)"
    using performRequest_received[of w endpoint "method" body ra s issued status data decode]
    by (auto split: option.splits)
  have upload: "uploadReceives w boundary imageData imageType s issued status data \<longrightarrow>
        ((\<exists>u. fst (uploadImage w boundary imageData imageType s issued) = Inr u)
           \<longleftrightarrow> status = 200 \<and> Option.bind data decodeStringDict \<noteq> None)"
    using uploadImage_received[of w boundary imageData imageType s issued status data]
    by (auto split: option.splits)
  have js: "fetch rt (length jsIssued) (config jsEndpoint opts) = Response jsStatus jsBody \<longrightarrow>
        ((\<exists>d. fst (apiRequest rt jsEndpoint opts jsIssued) = Inr d)
           \<longleftrightarrow> 200 \<le> jsStatus \<and> jsStatus \<le> 299 \<and> jsBody \<noteq> None)
        \<and> (\<forall>d. fst (apiRequest rt jsEndpoint opts jsIssued) = Inr d \<longrightarrow> jsBody = Some d)"
    using apiRequest_received[of rt jsIssued jsEndpoint opts jsStatus jsBody]
    by (auto split: option.splits sum.splits if_splits)
  from swift upload js show ?thesis by blast
qed

theorem C3_success_condition_witness:
  "fst (performRequest (scripted [HTTP 201 (Some aliceDoc)]) decodeUser ''/auth/register''
          ''POST'' NoBody False freshManager []) = Inr alice \<and>
   (\<nexists>v. fst (performRequest (scripted [HTTP 204 None]) decodeUser ''/auth/register''
               ''POST'' NoBody False freshManager []) = Inr v) \<and>
   (\<nexists>u. fst (uploadImage (scripted [HTTP 201 (Some (JObj [(''url'', JStr ''u'')]))])
               ''b'' ''jpeg'' ''meal'' loggedIn []) = Inr u) \<and>
   fst (apiRequest (scriptedJS [Response 202 (Some (JObj []))]) ''/food-logs''
          (saveOptions (scriptedJS [Response 202 (Some (JObj []))]) (JStr ''t1'') JNull) [])
     = Inr (JObj [])"
proof -
  let ?w1 = "scripted [HTTP 201 (Some aliceDoc)]"
  let ?w2 = "scripted [HTTP 204 None]"
  let ?w3 = "scripted [HTTP 201 (Some (JObj [(''url'', JStr ''u'')]))]"
  let ?r = "scriptedJS [Response 202 (Some (JObj []))]"
  note swift = C3_success_condition[THEN conjunct1, rule_format]
  note upload = C3_success_condition[THEN conjunct2, THEN conjunct1, rule_format]
  note js = C3_success_condition[THEN conjunct2, THEN conjunct2, rule_format]
  have url: "noSpaces (baseURL @ ''/auth/register'')" "noSpaces (baseURL @ ''/upload-user-image'')"
    by (simp_all add: noSpaces_def baseURL_def)
  have dec: "decodeUser aliceDoc = Some alice"
    by (simp add: decodeUser_def aliceDoc_def alice_def field_def decodeInt_def
          decodeString_def decodeBool_def)
  have a1: "receives ?w1 ''/auth/register'' ''POST'' NoBody False freshManager [] 201
              (Some aliceDoc)"
    using url by (simp add: receives_def scripted_def)
  have a2: "receives ?w2 ''/auth/register'' ''POST'' NoBody False freshManager [] 204 None"
    using url by (simp add: receives_def scripted_def)
  have a3: "uploadReceives ?w3 ''b'' ''jpeg'' ''meal'' loggedIn [] 201
              (Some (JObj [(''url'', JStr ''u'')]))"
    using url by (simp add: uploadReceives_def scripted_def loggedIn_def)
  have a4: "fetch ?r (length []) (config ''/food-logs'' (saveOptions ?r (JStr ''t1'') JNull))
              = Response 202 (Some (JObj []))"
    by (simp add: scriptedJS_def)
  have "\<exists>v. fst (performRequest ?w1 decodeUser ''/auth/register'' ''POST'' NoBody False
                   freshManager []) = Inr v"
    using swift[OF a1, THEN conjunct1, of decodeUser] dec by simp
  then obtain v where v: "fst (performRequest ?w1 decodeUser ''/auth/register'' ''POST'' NoBody
                                 False freshManager []) = Inr v" ..
  have "Some alice = Some v"
    using swift[OF a1, THEN conjunct2, rule_format, OF v] dec by simp
  with v have s1: "fst (performRequest ?w1 decodeUser ''/auth/register'' ''POST'' NoBody False
                          freshManager []) = Inr alice" by simp
  have s2: "\<nexists>v. fst (performRequest ?w2 decodeUser ''/auth/register'' ''POST'' NoBody False
                        freshManager []) = Inr v"
    using swift[OF a2, THEN conjunct1, of decodeUser] by simp
  have s3: "\<nexists>u. fst (uploadImage ?w3 ''b'' ''jpeg'' ''meal'' loggedIn []) = Inr u"
    using upload[OF a3] by simp
  have "\<exists>d. fst (apiRequest ?r ''/food-logs'' (saveOptions ?r (JStr ''t1'') JNull) []) = Inr d"
    using js[OF a4, THEN conjunct1] by simp
  then obtain d where d: "fst (apiRequest ?r ''/food-logs'' (saveOptions ?r (JStr ''t1'') JNull)
                                 []) = Inr d" ..
  have "Some (JObj []) = Some d"
    using js[OF a4, THEN conjunct2, rule_format, OF d] .
  with d have s4: "fst (apiRequest ?r ''/food-logs'' (saveOptions ?r (JStr ''t1'') JNull) [])
                     = Inr (JObj [])" by simp
  from s1 s2 s3 s4 show ?thesis by blast
qed

text \<open>
  C3 as stated fails: the React Native client returns the body of a 202 response, and
  the Swift image upload turns a 201 response into a server error.
\<close>

theorem C3_counterexample:
  "fst (apiRequest (scriptedJS [Response 202 (Some (JObj []))]) ''/food-logs''
          (saveOptions (scriptedJS [Response 202 (Some (JObj []))]) (JStr ''t1'') JNull) [])
     = Inr (JObj []) \<and>
   fst (uploadImage (scripted [HTTP 201 (Some (JObj [(''url'', JStr ''u'')]))])
          ''b'' ''jpeg'' ''meal'' loggedIn []) = Inl (NetErr (serverError 201))"
  by (simp add: apiRequest_def scriptedJS_def uploadImage_def scripted_def loggedIn_def
        noSpaces_def baseURL_def)

text \<open>
  C10. When \<open>uploadImage\<close> receives a response with status 200 whose body is an object
  of strings (the shape \<open>[String: String]\<close>) without the key \<open>url\<close>, it returns the empty
  string. For a response it receives, it reports an error exactly when the status is not
  200 or the body does not decode as such an object.
\<close>

theorem C10_upload_missing_url:
  assumes "uploadReceives w boundary imageData imageType s issued status data"
  shows "(status = 200 \<and> data = Some (JObj kvs) \<and> decodeStringEntries kvs = Some d
            \<and> map_of kvs ''url'' = None
          \<longrightarrow> fst (uploadImage w boundary imageData imageType s issued) = Inr [])
       \<and> ((\<exists>e. fst (uploadImage w boundary imageData imageType s issued) = Inl e)
            \<longleftrightarrow> status \<noteq> 200 \<or> Option.bind data decodeStringDict = None)"
proof -
  note r = uploadImage_received[OF assms]
  have first: "status = 200 \<and> data = Some (JObj kvs) \<and> decodeStringEntries kvs = Some d
                 \<and> map_of kvs ''url'' = None
               \<longrightarrow> fst (uploadImage w boundary imageData imageType s issued) = Inr []"
  proof
    assume h: "status = 200 \<and> data = Some (JObj kvs) \<and> decodeStringEntries kvs = Some d
                 \<and> map_of kvs ''url'' = None"
    then have "map_of d ''url'' = None"
      using decodeStringEntries_lookup_None[of kvs d "''url''"] by simp
    with h r show "fst (uploadImage w boundary imageData imageType s issued) = Inr []"
      by (simp add: decodeStringDict_def)
  qed
  have second: "(\<exists>e. fst (uploadImage w boundary imageData imageType s issued) = Inl e)
                  \<longleftrightarrow> status \<noteq> 200 \<or> Option.bind data decodeStringDict = None"
    using r by (auto split: option.splits)
  from first second show ?thesis by blast
qed

theorem C10_upload_missing_url_witness:
  "fst (uploadImage (scripted [HTTP 200 (Some (JObj [(''message'', JStr ''stored'')]))])
          ''b'' ''jpeg'' ''meal'' loggedIn []) = Inr [] \<and>
   (\<exists>e. fst (uploadImage (scripted [HTTP 200 (Some (JObj [(''size'', JNum 3)]))])
               ''b'' ''jpeg'' ''meal'' loggedIn []) = Inl e)"
proof -
  let ?w1 = "scripted [HTTP 200 (Some (JObj [(''message'', JStr ''stored'')]))]"
  let ?w2 = "scripted [HTTP 200 (Some (JObj [(''size'', JNum 3)]))]"
  have url: "noSpaces (baseURL @ ''/upload-user-image'')"
    by (simp add: noSpaces_def baseURL_def)
  have a1: "uploadReceives ?w1 ''b'' ''jpeg'' ''meal'' loggedIn [] 200
              (Some (JObj [(''message'', JStr ''stored'')]))"
    using url by (simp add: uploadReceives_def scripted_def loggedIn_def)
  have a2: "uploadReceives ?w2 ''b'' ''jpeg'' ''meal'' loggedIn [] 200
              (Some (JObj [(''size'', JNum 3)]))"
    using url by (simp add: uploadReceives_def scripted_def loggedIn_def)
  have s1: "fst (uploadImage ?w1 ''b'' ''jpeg'' ''meal'' loggedIn []) = Inr []"
    using C10_upload_missing_url[OF a1, THEN conjunct1, rule_format,
            of "[(''message'', JStr ''stored'')]" "[(''message'', ''stored'')]"]
    by (simp add: decodeString_def)
  have s2: "\<exists>e. fst (uploadImage ?w2 ''b'' ''jpeg'' ''meal'' loggedIn []) = Inl e"
    using C10_upload_missing_url[OF a2, THEN conjunct2]
    by (simp add: decodeStringDict_def decodeString_def)
  from s1 s2 show ?thesis by blast
qed

text \<open>
  C6. Whenever the request of \<open>getCurrentUser\<close> (GET /auth/me, auth required) fails,
  with whatever error, the manager ends in the state \<open>logout\<close> produces: no stored
  token, the authenticated flag false, no current user.
\<close>

theorem C6_failed_me_logs_out:
  assumes "fst (performRequest w decodeUser ''/auth/me'' ''GET'' NoBody True s issued) = Inl e"
  shows "fst (getCurrentUser w s issued) = logout s
       \<and> authToken (fst (getCurrentUser w s issued)) = None
       \<and> \<not> isAuthenticated (fst (getCurrentUser w s issued))
       \<and> currentUser (fst (getCurrentUser w s issued)) = None"
proof -
  obtain r issued' where p:
    "performRequest w decodeUser ''/auth/me'' ''GET'' NoBody True s issued = (r, issued')"
    by (cases "performRequest w decodeUser ''/auth/me'' ''GET'' NoBody True s issued")
  with assms have "r = Inl e" by simp
  with p have "getCurrentUser w s issued = (logout s, issued')"
    by (simp add: getCurrentUser_def)
  then show ?thesis by (simp add: logout_def)
qed

theorem C6_failed_me_logs_out_witness:
  "fst (performRequest (scripted [HTTP 401 (Some expiredDoc)]) decodeUser ''/auth/me'' ''GET''
          NoBody True loggedIn []) = Inl (NetErr (apiError ''Token expired'')) \<and>
   authToken (fst (getCurrentUser (scripted [HTTP 401 (Some expiredDoc)]) loggedIn [])) = None \<and>
   \<not> isAuthenticated (fst (getCurrentUser (scripted [HTTP 401 (Some expiredDoc)]) loggedIn [])) \<and>
   currentUser (fst (getCurrentUser (scripted [HTTP 401 (Some expiredDoc)]) loggedIn [])) = None"
proof -
  let ?w = "scripted [HTTP 401 (Some expiredDoc)]"
  have h: "fst (performRequest ?w decodeUser ''/auth/me'' ''GET'' NoBody True loggedIn [])
             = Inl (NetErr (apiError ''Token expired''))"
    by (simp add: performRequest_def scripted_def loggedIn_def noSpaces_def baseURL_def
          decodeAPIError_def expiredDoc_def field_def decodeString_def)
  from C6_failed_me_logs_out[OF h, THEN conjunct2] h show ?thesis by simp
qed

text \<open>
  C7, as the code has it. When POST /auth/login with the user name and password is
  answered with status 200 or 201 and a token document, \<open>login\<close> stores the access token
  and sets the flag, and then calls \<open>getCurrentUser\<close> with that token. If this GET
  /auth/me is accepted, login ends with the access token stored and the flag true; if it
  is not, the implicit logout leaves no stored token and the flag false.
\<close>

theorem C7_login_result:
  assumes "receives w ''/auth/login'' ''POST'' (JSONBody (encodeUserLogin u p)) False s issued
             status (Some j)"
    and "status = 200 \<or> status = 201"
    and "decodeToken j = Some tok"
  shows "(if URL_string w (baseURL @ ''/auth/me'') \<and>
             accepted decodeUser (URLSession_data w (Suc (length issued))
               (buildRequest ''/auth/me'' ''GET'' NoBody (Some (accessToken tok))))
          then authToken (fst (login w u p s issued)) = Some (accessToken tok)
                 \<and> isAuthenticated (fst (login w u p s issued))
          else authToken (fst (login w u p s issued)) = None
                 \<and> \<not> isAuthenticated (fst (login w u p s issued)))"
  using login_followed_up[OF assms] login_not_followed_up[OF assms] by simp

theorem C7_login_result_witness:
  "decodeToken tokenDoc = Some \<lparr>accessToken = ''t1'', tokenType = ''bearer''\<rparr> \<and>
   authToken (fst (login (scripted [HTTP 200 (Some tokenDoc), HTTP 200 (Some aliceDoc)])
                     ''alice'' ''pw'' freshManager [])) = Some ''t1'' \<and>
   isAuthenticated (fst (login (scripted [HTTP 200 (Some tokenDoc), HTTP 200 (Some aliceDoc)])
                           ''alice'' ''pw'' freshManager []))"
proof -
  let ?w = "scripted [HTTP 200 (Some tokenDoc), HTTP 200 (Some aliceDoc)]"
  have url: "noSpaces (baseURL @ ''/auth/login'')" "noSpaces (baseURL @ ''/auth/me'')"
    by (simp_all add: noSpaces_def baseURL_def)
  have tok: "decodeToken tokenDoc = Some \<lparr>accessToken = ''t1'', tokenType = ''bearer''\<rparr>"
    by (simp add: decodeToken_def tokenDoc_def field_def decodeString_def)
  have usr: "decodeUser aliceDoc = Some alice"
    by (simp add: decodeUser_def aliceDoc_def alice_def field_def decodeInt_def
          decodeString_def decodeBool_def)
  have a1: "receives ?w ''/auth/login'' ''POST'' (JSONBody (encodeUserLogin ''alice'' ''pw''))
              False freshManager [] 200 (Some tokenDoc)"
    using url by (simp add: receives_def scripted_def)
  have a2: "URL_string ?w (baseURL @ ''/auth/me'')"
    using url by (simp add: scripted_def)
  have a3: "accepted decodeUser (URLSession_data ?w (Suc (length []))
              (buildRequest ''/auth/me'' ''GET'' NoBody
                 (Some (accessToken \<lparr>accessToken = ''t1'', tokenType = ''bearer''\<rparr>))))"
    using usr by (simp add: accepted_def scripted_def)
  from C7_login_result[OF a1 _ tok] a2 a3 tok show ?thesis by simp
qed

text \<open>
  C7 as stated fails: the login request is answered with the token \<open>t1\<close>, the follow-up
  GET /auth/me is answered 401, and login ends with no stored token and the flag false.
\<close>

theorem C7_counterexample:
  "URLSession_data (scripted [HTTP 200 (Some tokenDoc), HTTP 401 (Some expiredDoc)]) 0
     (buildRequest ''/auth/login'' ''POST'' (JSONBody (encodeUserLogin ''alice'' ''pw'')) None)
     = HTTP 200 (Some (JObj [(''access_token'', JStr ''t1''), (''token_type'', JStr ''bearer'')]))
   \<and> authToken (fst (login (scripted [HTTP 200 (Some tokenDoc), HTTP 401 (Some expiredDoc)])
                       ''alice'' ''pw'' freshManager [])) = None
   \<and> \<not> isAuthenticated (fst (login (scripted [HTTP 200 (Some tokenDoc), HTTP 401 (Some expiredDoc)])
                               ''alice'' ''pw'' freshManager []))"
proof -
  let ?w = "scripted [HTTP 200 (Some tokenDoc), HTTP 401 (Some expiredDoc)]"
  have url: "noSpaces (baseURL @ ''/auth/login'')" "noSpaces (baseURL @ ''/auth/me'')"
    by (simp_all add: noSpaces_def baseURL_def)
  have tok: "decodeToken tokenDoc = Some \<lparr>accessToken = ''t1'', tokenType = ''bearer''\<rparr>"
    by (simp add: decodeToken_def tokenDoc_def field_def decodeString_def)
  have first: "performRequest ?w decodeToken ''/auth/login'' ''POST''
                 (JSONBody (encodeUserLogin ''alice'' ''pw'')) False
                 (freshManager\<lparr>isLoading := True, errorMessage := None\<rparr>) []
               = (Inr \<lparr>accessToken = ''t1'', tokenType = ''bearer''\<rparr>,
                  [buildRequest ''/auth/login'' ''POST''
                     (JSONBody (encodeUserLogin ''alice'' ''pw'')) None])"
    using url tok by (simp add: performRequest_def scripted_def)
  have second: "fst (getCurrentUser ?w
                  (freshManager\<lparr>isLoading := True, errorMessage := None,
                     authToken := Some ''t1'', isAuthenticated := True\<rparr>)
                  [buildRequest ''/auth/login'' ''POST''
                     (JSONBody (encodeUserLogin ''alice'' ''pw'')) None])
                = logout (freshManager\<lparr>isLoading := True, errorMessage := None,
                            authToken := Some ''t1'', isAuthenticated := True\<rparr>)"
    using url
    by (simp add: getCurrentUser_def performRequest_def scripted_def decodeAPIError_def
          expiredDoc_def field_def decodeString_def)
  have "fst (login ?w ''alice'' ''pw'' freshManager [])
          = (logout (freshManager\<lparr>isLoading := True, errorMessage := None,
                       authToken := Some ''t1'', isAuthenticated := True\<rparr>))\<lparr>isLoading := False\<rparr>"
    using first second by (auto simp: login_def split: prod.splits)
  then show ?thesis by (simp add: logout_def scripted_def tokenDoc_def)
qed

text \<open>
  C4. After a login whose POST /auth/login was answered with a token and whose GET
  /auth/me was accepted, the token is stored; an auth-required call then issues a
  request whose \<open>Authorization\<close> header is \<open>Bearer\<close> followed by that token; after
  \<open>logout\<close> the same call fails with not-authenticated and issues nothing.
\<close>

theorem C4_token_round_trip:
  assumes "receives w ''/auth/login'' ''POST'' (JSONBody (encodeUserLogin u p)) False s issued
             status (Some j)"
    and "status = 200 \<or> status = 201"
    and "decodeToken j = Some tok"
    and "URL_string w (baseURL @ ''/auth/me'')"
    and "accepted decodeUser (URLSession_data w (Suc (length issued))
           (buildRequest ''/auth/me'' ''GET'' NoBody (Some (accessToken tok))))"
    and "login w u p s issued = (s', issued')"
    and "URL_string w (baseURL @ endpoint)"
  shows "authToken s' = Some (accessToken tok)
       \<and> snd (performRequest w decode endpoint method body True s' issued')
           = issued' @ [buildRequest endpoint method body (Some (accessToken tok))]
       \<and> map_of (headers (buildRequest endpoint method body (Some (accessToken tok))))
           ''Authorization'' = Some (''Bearer '' @ accessToken tok)
       \<and> performRequest w decode endpoint method body True (logout s') later
           = (Inl (NetErr notAuthenticated), later)"
proof -
  have t: "authToken s' = Some (accessToken tok)"
    using login_followed_up[OF assms(1-5)] assms(6) by simp
  have sent: "snd (performRequest w decode endpoint method body True s' issued')
                = issued' @ [buildRequest endpoint method body (Some (accessToken tok))]"
    using t assms(7) by (simp add: performRequest_def Let_def)
  have hdr: "map_of (headers (buildRequest endpoint method body (Some (accessToken tok))))
               ''Authorization'' = Some (''Bearer '' @ accessToken tok)"
    by (simp add: buildRequest_def)
  have out: "performRequest w decode endpoint method body True (logout s') later
               = (Inl (NetErr notAuthenticated), later)"
    using assms(7) by (simp add: performRequest_def logout_def)
  from t sent hdr out show ?thesis by simp
qed

theorem C4_token_round_trip_witness:
  "authToken (fst (login (scripted [HTTP 200 (Some tokenDoc), HTTP 200 (Some aliceDoc)])
                     ''alice'' ''pw'' freshManager [])) = Some ''t1'' \<and>
   map_of (headers (last (snd (performRequest
        (scripted [HTTP 200 (Some tokenDoc), HTTP 200 (Some aliceDoc)])
        decodeUser ''/users/alice/profile'' ''GET'' NoBody True
        (fst (login (scripted [HTTP 200 (Some tokenDoc), HTTP 200 (Some aliceDoc)])
                ''alice'' ''pw'' freshManager []))
        (snd (login (scripted [HTTP 200 (Some tokenDoc), HTTP 200 (Some aliceDoc)])
                ''alice'' ''pw'' freshManager [])))))) ''Authorization'' = Some ''Bearer t1'' \<and>
   performRequest (scripted [HTTP 200 (Some tokenDoc), HTTP 200 (Some aliceDoc)])
        decodeUser ''/users/alice/profile'' ''GET'' NoBody True
        (logout (fst (login (scripted [HTTP 200 (Some tokenDoc), HTTP 200 (Some aliceDoc)])
                        ''alice'' ''pw'' freshManager []))) []
     = (Inl (NetErr notAuthenticated), [])"
proof -
  let ?w = "scripted [HTTP 200 (Some tokenDoc), HTTP 200 (Some aliceDoc)]"
  let ?tok = "\<lparr>accessToken = ''t1'', tokenType = ''bearer''\<rparr>"
  have url: "noSpaces (baseURL @ ''/auth/login'')" "noSpaces (baseURL @ ''/auth/me'')"
    "noSpaces (baseURL @ ''/users/alice/profile'')"
    by (simp_all add: noSpaces_def baseURL_def)
  have tok: "decodeToken tokenDoc = Some ?tok"
    by (simp add: decodeToken_def tokenDoc_def field_def decodeString_def)
  have usr: "decodeUser aliceDoc = Some alice"
    by (simp add: decodeUser_def aliceDoc_def alice_def field_def decodeInt_def
          decodeString_def decodeBool_def)
  have a1: "receives ?w ''/auth/login'' ''POST'' (JSONBody (encodeUserLogin ''alice'' ''pw''))
              False freshManager [] 200 (Some tokenDoc)"
    using url by (simp add: receives_def scripted_def)
  have a2: "200 = (200::int) \<or> 200 = (201::int)" by simp
  have a4: "URL_string ?w (baseURL @ ''/auth/me'')"
    using url by (simp add: scripted_def)
  have a5: "accepted decodeUser (URLSession_data ?w (Suc (length []))
              (buildRequest ''/auth/me'' ''GET'' NoBody (Some (accessToken ?tok))))"
    using usr by (simp add: accepted_def scripted_def)
  have a6: "login ?w ''alice'' ''pw'' freshManager []
              = (fst (login ?w ''alice'' ''pw'' freshManager []),
                 snd (login ?w ''alice'' ''pw'' freshManager []))"
    by simp
  have a7: "URL_string ?w (baseURL @ ''/users/alice/profile'')"
    using url by (simp add: scripted_def)
  from C4_token_round_trip[OF a1 a2 tok a4 a5 a6 a7, of decodeUser "''GET''" NoBody "[]"]
  show ?thesis by simp
qed

text \<open>
  C9. The flag \<open>isAuthenticated\<close> is true exactly when a token is stored: when \<open>init\<close>
  has returned, and after any sequence of \<open>checkAuthStatus\<close>, \<open>login\<close>, \<open>register\<close>,
  \<open>logout\<close> and \<open>getCurrentUser\<close> (the start-up task included), whatever the server
  answers.
\<close>

theorem C9_authenticated_iff_token:
  "authInv (fst (run w ops (fst (NetworkManager_init stored), [])))"
  by (rule authInv_run) (simp add: NetworkManager_init_def authInv_checkAuthStatus)

theorem C9_authenticated_iff_token_witness:
  "isAuthenticated (fst (run (scripted [HTTP 401 (Some expiredDoc)]) [GetCurrentUser, Login ''alice'' ''pw'']
                      (fst (NetworkManager_init (Some ''t0'')), [])))
     = (authToken (fst (run (scripted [HTTP 401 (Some expiredDoc)]) [GetCurrentUser, Login ''alice'' ''pw'']
                      (fst (NetworkManager_init (Some ''t0'')), []))) \<noteq> None)"
  using C9_authenticated_iff_token[of "scripted [HTTP 401 (Some expiredDoc)]"
          "[GetCurrentUser, Login ''alice'' ''pw'']" "Some ''t0''"]
  by (simp only: authInv_def)

text \<open>
  C5, as the code has it. When POST /food-logs, made with a stored but expired token, is
  answered 401 with the body \<open>{"detail": "Token expired"}\<close>: in the Swift client
  \<open>saveFoodLog\<close> throws the API error whose description is "Token expired", and the view
  shows "Failed to save meal: Token expired" and changes nothing else; in the React
  Native client \<open>apiRequest\<close> throws an error with the message "Token expired", and the
  screen alerts "Failed to save meal" and changes nothing else. Neither path touches a
  food-log list.
\<close>

theorem C5_expired_token_save:
  "(currentUser s = Some user \<and> mealResponse v = Some mr \<and>
    receives w ''/food-logs'' ''POST''
      (JSONBody (encodeSaveFoodLogRequest (username user) dateString mealType
                   (foodLogItems w mr) (toDouble w (meal_totalCalories mr))))
      True s issued 401 (Some expiredDoc)
    \<longrightarrow>
      fst (saveFoodLog w dateString mealType (foodLogItems w mr)
             (toDouble w (meal_totalCalories mr)) s issued)
        = Inl (NetErr (apiError ''Token expired''))
      \<and> localizedDescription w (NetErr (apiError ''Token expired'')) = ''Token expired''
      \<and> fst (MealAnalysisView_saveMeal w dateString mealType s v issued)
          = v\<lparr>view_errorMessage := Some ''Failed to save meal: Token expired''\<rparr>)
   \<and> (truthy (mealResult st) \<and> saveData jsUser today mealType (mealResult st) = Inr d \<and>
       fetch rt (length jsIssued) (config ''/food-logs'' (saveOptions rt token d))
         = Response 401 (Some expiredDoc)
       \<longrightarrow>
         fst (apiRequest rt ''/food-logs'' (saveOptions rt token d) jsIssued)
           = Inl (Error ''Token expired'')
         \<and> fst (MealAnalysisScreen_saveMeal rt jsUser token today mealType st jsIssued)
             = st\<lparr>alerts := alerts st @ [(''Error'', ''Failed to save meal'')]\<rparr>)"
proof -
  have det: "detailOf (Some expiredDoc) = Some ''Token expired''"
    by (simp add: detailOf_def expiredDoc_def)
  have swift: "currentUser s = Some user \<and> mealResponse v = Some mr \<and>
    receives w ''/food-logs'' ''POST''
      (JSONBody (encodeSaveFoodLogRequest (username user) dateString mealType
                   (foodLogItems w mr) (toDouble w (meal_totalCalories mr))))
      True s issued 401 (Some expiredDoc)
    \<longrightarrow>
      fst (saveFoodLog w dateString mealType (foodLogItems w mr)
             (toDouble w (meal_totalCalories mr)) s issued)
        = Inl (NetErr (apiError ''Token expired''))
      \<and> localizedDescription w (NetErr (apiError ''Token expired'')) = ''Token expired''
      \<and> fst (MealAnalysisView_saveMeal w dateString mealType s v issued)
          = v\<lparr>view_errorMessage := Some ''Failed to save meal: Token expired''\<rparr>"
  proof
    assume h: "currentUser s = Some user \<and> mealResponse v = Some mr \<and>
      receives w ''/food-logs'' ''POST''
        (JSONBody (encodeSaveFoodLogRequest (username user) dateString mealType
                     (foodLogItems w mr) (toDouble w (meal_totalCalories mr))))
        True s issued 401 (Some expiredDoc)"
    then have r: "receives w ''/food-logs'' ''POST''
        (JSONBody (encodeSaveFoodLogRequest (username user) dateString mealType
                     (foodLogItems w mr) (toDouble w (meal_totalCalories mr))))
        True s issued 401 (Some expiredDoc)" by simp
    have save: "saveFoodLog w dateString mealType (foodLogItems w mr)
             (toDouble w (meal_totalCalories mr)) s issued
        = (Inl (NetErr (apiError ''Token expired'')),
           issued @ [buildRequest ''/food-logs'' ''POST''
              (JSONBody (encodeSaveFoodLogRequest (username user) dateString mealType
                           (foodLogItems w mr) (toDouble w (meal_totalCalories mr))))
              (authToken s)])"
      using h performRequest_received[OF r, of decodeSaveFoodLogResponse] det
      by (simp add: saveFoodLog_def)
    then show "fst (saveFoodLog w dateString mealType (foodLogItems w mr)
             (toDouble w (meal_totalCalories mr)) s issued)
        = Inl (NetErr (apiError ''Token expired''))
      \<and> localizedDescription w (NetErr (apiError ''Token expired'')) = ''Token expired''
      \<and> fst (MealAnalysisView_saveMeal w dateString mealType s v issued)
          = v\<lparr>view_errorMessage := Some ''Failed to save meal: Token expired''\<rparr>"
      using h by (simp add: MealAnalysisView_saveMeal_def)
  qed
  have js: "truthy (mealResult st) \<and> saveData jsUser today mealType (mealResult st) = Inr d \<and>
       fetch rt (length jsIssued) (config ''/food-logs'' (saveOptions rt token d))
         = Response 401 (Some expiredDoc)
       \<longrightarrow>
         fst (apiRequest rt ''/food-logs'' (saveOptions rt token d) jsIssued)
           = Inl (Error ''Token expired'')
         \<and> fst (MealAnalysisScreen_saveMeal rt jsUser token today mealType st jsIssued)
             = st\<lparr>alerts := alerts st @ [(''Error'', ''Failed to save meal'')]\<rparr>"
  proof
    assume h: "truthy (mealResult st) \<and> saveData jsUser today mealType (mealResult st) = Inr d \<and>
       fetch rt (length jsIssued) (config ''/food-logs'' (saveOptions rt token d))
         = Response 401 (Some expiredDoc)"
    then have f: "fetch rt (length jsIssued) (config ''/food-logs'' (saveOptions rt token d))
         = Response 401 (Some expiredDoc)" by simp
    have e: "fst (apiRequest rt ''/food-logs'' (saveOptions rt token d) jsIssued)
               = Inl (Error ''Token expired'')"
      using apiRequest_detail[OF f _ det] by simp
    then obtain jsIssued' where
      "apiRequest rt ''/food-logs'' (saveOptions rt token d) jsIssued
         = (Inl (Error ''Token expired''), jsIssued')"
      by (cases "apiRequest rt ''/food-logs'' (saveOptions rt token d) jsIssued") simp
    with h e show "fst (apiRequest rt ''/food-logs'' (saveOptions rt token d) jsIssued)
           = Inl (Error ''Token expired'')
         \<and> fst (MealAnalysisScreen_saveMeal rt jsUser token today mealType st jsIssued)
             = st\<lparr>alerts := alerts st @ [(''Error'', ''Failed to save meal'')]\<rparr>"
      by (simp add: MealAnalysisScreen_saveMeal_def)
  qed
  from swift js show ?thesis by blast
qed

theorem C5_expired_token_save_witness:
  "fst (saveFoodLog (scripted [HTTP 401 (Some expiredDoc)]) ''2024-01-01'' ''breakfast''
          (foodLogItems (scripted [HTTP 401 (Some expiredDoc)]) oatmeal) 150 loggedIn [])
     = Inl (NetErr (apiError ''Token expired'')) \<and>
   fst (MealAnalysisView_saveMeal (scripted [HTTP 401 (Some expiredDoc)]) ''2024-01-01''
          ''breakfast'' loggedIn analysedView [])
     = analysedView\<lparr>view_errorMessage := Some ''Failed to save meal: Token expired''\<rparr> \<and>
   fst (MealAnalysisScreen_saveMeal (scriptedJS [Response 401 (Some expiredDoc)]) aliceJS
          (JStr ''t1'') ''2024-01-01'' ''breakfast'' analysedScreen [])
     = analysedScreen\<lparr>alerts := [(''Error'', ''Failed to save meal'')]\<rparr>"
proof -
  let ?w = "scripted [HTTP 401 (Some expiredDoc)]"
  let ?rt = "scriptedJS [Response 401 (Some expiredDoc)]"
  note swift = C5_expired_token_save[THEN conjunct1, rule_format]
  note js = C5_expired_token_save[THEN conjunct2, rule_format]
  have url: "noSpaces (baseURL @ ''/food-logs'')"
    by (simp add: noSpaces_def baseURL_def)
  have a1: "currentUser loggedIn = Some alice \<and> mealResponse analysedView = Some oatmeal \<and>
    receives ?w ''/food-logs'' ''POST''
      (JSONBody (encodeSaveFoodLogRequest (username alice) ''2024-01-01'' ''breakfast''
                   (foodLogItems ?w oatmeal) (toDouble ?w (meal_totalCalories oatmeal))))
      True loggedIn [] 401 (Some expiredDoc)"
    using url by (simp add: receives_def scripted_def loggedIn_def analysedView_def)
  have total: "toDouble ?w (meal_totalCalories oatmeal) = 150"
    by (simp add: scripted_def oatmeal_def)
  have b1: "truthy (mealResult analysedScreen)"
    by (simp add: analysedScreen_def mealDoc_def)
  obtain d where b2: "saveData aliceJS ''2024-01-01'' ''breakfast'' (mealResult analysedScreen)
                        = Inr d"
    by (simp add: saveData_def aliceJS_def analysedScreen_def mealDoc_def getProp_def
          readProp_def foodEntry_def)
  have b3: "fetch ?rt (length []) (config ''/food-logs'' (saveOptions ?rt (JStr ''t1'') d))
              = Response 401 (Some expiredDoc)"
    by (simp add: scriptedJS_def)
  have s: "fst (saveFoodLog ?w ''2024-01-01'' ''breakfast'' (foodLogItems ?w oatmeal) 150
                  loggedIn []) = Inl (NetErr (apiError ''Token expired'')) \<and>
           fst (MealAnalysisView_saveMeal ?w ''2024-01-01'' ''breakfast'' loggedIn analysedView [])
             = analysedView\<lparr>view_errorMessage := Some ''Failed to save meal: Token expired''\<rparr>"
    using swift[OF a1] total by simp
  have j: "fst (MealAnalysisScreen_saveMeal ?rt aliceJS (JStr ''t1'') ''2024-01-01''
                  ''breakfast'' analysedScreen [])
             = analysedScreen\<lparr>alerts := [(''Error'', ''Failed to save meal'')]\<rparr>"
    using js[of analysedScreen aliceJS "''2024-01-01''" "''breakfast''" d ?rt "[]" "JStr ''t1''"]
          b1 b2 b3
    by (simp add: analysedScreen_def)
  from s j show ?thesis by simp
qed

text \<open>
  C5 as stated fails: what the React Native screen shows after the failed save is the
  alert "Failed to save meal", and what the Swift view shows is "Failed to save meal:
  Token expired"; neither equals "Token expired".
\<close>

theorem C5_counterexample:
  "alerts (fst (MealAnalysisScreen_saveMeal (scriptedJS [Response 401 (Some expiredDoc)]) aliceJS
                  (JStr ''t1'') ''2024-01-01'' ''breakfast'' analysedScreen []))
     = [(''Error'', ''Failed to save meal'')] \<and>
   view_errorMessage (fst (MealAnalysisView_saveMeal (scripted [HTTP 401 (Some expiredDoc)])
                             ''2024-01-01'' ''breakfast'' loggedIn analysedView []))
     = Some ''Failed to save meal: Token expired'' \<and>
   ''Failed to save meal'' \<noteq> ''Token expired'' \<and>
   ''Failed to save meal: Token expired'' \<noteq> ''Token expired''"
proof -
  have js: "alerts (fst (MealAnalysisScreen_saveMeal (scriptedJS [Response 401 (Some expiredDoc)])
                  aliceJS (JStr ''t1'') ''2024-01-01'' ''breakfast'' analysedScreen []))
              = [(''Error'', ''Failed to save meal'')]"
    by (simp add: MealAnalysisScreen_saveMeal_def saveData_def aliceJS_def analysedScreen_def
          mealDoc_def getProp_def readProp_def foodEntry_def apiRequest_def scriptedJS_def
          expiredDoc_def)
  have url: "noSpaces (baseURL @ ''/food-logs'')"
    by (simp add: noSpaces_def baseURL_def)
  have swift: "view_errorMessage (fst (MealAnalysisView_saveMeal
                   (scripted [HTTP 401 (Some expiredDoc)]) ''2024-01-01'' ''breakfast''
                   loggedIn analysedView []))
                 = Some ''Failed to save meal: Token expired''"
    using url
    by (simp add: MealAnalysisView_saveMeal_def analysedView_def saveFoodLog_def loggedIn_def
          performRequest_def scripted_def decodeAPIError_def expiredDoc_def field_def
          decodeString_def)
  from js swift show ?thesis by simp
qed

text \<open>
  C8. When the food-log list call (GET
  /users/\{id\}/food-logs?date_filter=...&limit=50) is answered with a status in 200..299
  and the empty JSON array, the screen's food-log list is the empty array, the total of
  calories computed from it is 0 and the number of meals is 0.
\<close>

theorem C8_empty_food_log:
  assumes "user \<noteq> JNull"
    and "fetch rt (length issued)
           (config (foodLogsEndpoint rt (readProp user ''username'') dateString)
              (foodLogsOptions rt token))
         = Response status (Some (JArr []))"
    and "200 \<le> status" and "status \<le> 299"
  shows "foodLogs (fst (loadFoodLogs rt user token dateString st issued)) = JArr []
       \<and> totalCalories rt (foodLogs (fst (loadFoodLogs rt user token dateString st issued)))
           = Inr (JNum 0)
       \<and> mealCount (foodLogs (fst (loadFoodLogs rt user token dateString st issued))) = Inr 0"
proof -
  have g: "getProp user ''username'' = Inr (readProp user ''username'')"
    using assms(1) by (cases user) (simp_all add: getProp_def)
  have "fst (apiRequest rt (foodLogsEndpoint rt (readProp user ''username'') dateString)
               (foodLogsOptions rt token) issued) = Inr (JArr [])"
    using apiRequest_received[OF assms(2)] assms(3,4) by simp
  then obtain issued' where
    "apiRequest rt (foodLogsEndpoint rt (readProp user ''username'') dateString)
       (foodLogsOptions rt token) issued = (Inr (JArr []), issued')"
    by (cases "apiRequest rt (foodLogsEndpoint rt (readProp user ''username'') dateString)
                 (foodLogsOptions rt token) issued") simp
  with g have "foodLogs (fst (loadFoodLogs rt user token dateString st issued)) = JArr []"
    by (simp add: loadFoodLogs_def)
  then show ?thesis by (simp add: totalCalories_def mealCount_def)
qed

theorem C8_empty_food_log_witness:
  "url (config (foodLogsEndpoint (scriptedJS [Response 200 (Some (JArr []))])
                  (readProp aliceJS ''username'') ''2024-01-01'')
          (foodLogsOptions (scriptedJS [Response 200 (Some (JArr []))]) (JStr ''t1'')))
     = ''https://nutai-production.up.railway.app/users/alice/food-logs?date_filter=2024-01-01&limit=50''
   \<and> foodLogs (fst (loadFoodLogs (scriptedJS [Response 200 (Some (JArr []))]) aliceJS
                      (JStr ''t1'') ''2024-01-01'' emptyScreen [])) = JArr []
   \<and> totalCalories (scriptedJS [Response 200 (Some (JArr []))])
       (foodLogs (fst (loadFoodLogs (scriptedJS [Response 200 (Some (JArr []))]) aliceJS
                         (JStr ''t1'') ''2024-01-01'' emptyScreen []))) = Inr (JNum 0)
   \<and> mealCount (foodLogs (fst (loadFoodLogs (scriptedJS [Response 200 (Some (JArr []))]) aliceJS
                                 (JStr ''t1'') ''2024-01-01'' emptyScreen []))) = Inr 0"
proof -
  let ?rt = "scriptedJS [Response 200 (Some (JArr []))]"
  have a1: "aliceJS \<noteq> JNull" by (simp add: aliceJS_def)
  have a2: "fetch ?rt (length [])
              (config (foodLogsEndpoint ?rt (readProp aliceJS ''username'') ''2024-01-01'')
                 (foodLogsOptions ?rt (JStr ''t1'')))
            = Response 200 (Some (JArr []))"
    by (simp add: scriptedJS_def)
  have u: "url (config (foodLogsEndpoint ?rt (readProp aliceJS ''username'') ''2024-01-01'')
                  (foodLogsOptions ?rt (JStr ''t1'')))
             = ''https://nutai-production.up.railway.app/users/alice/food-logs?date_filter=2024-01-01&limit=50''"
    by (simp add: config_def foodLogsEndpoint_def readProp_def aliceJS_def baseURL_def)
  have "(200::int) \<le> 200" and "(200::int) \<le> 299" by simp_all
  from C8_empty_food_log[OF a1 a2 this, of emptyScreen] u show ?thesis by blast
qed

end
